theory Spec2Isabelle
  imports Main
begin

section \<open>Remote cluster lifecycle (pkg/remoteclusters/cluster.go)\<close>

text \<open>
  A sequential model of the \<^verbatim>\<open>Cluster\<close> type of package \<^verbatim>\<open>remoteclusters\<close>.
  Go pointers that may be nil are options, a Go \<^verbatim>\<open>error\<close> is an \<^verbatim>\<open>error option\<close>
  (\<open>None\<close> is nil), a run-time panic is the outcome \<open>Panic\<close>. Every call to a
  collaborator (manager, cache, controller, client, and the methods of \<^verbatim>\<open>Cluster\<close> that
  live in other files) is answered by an oracle of the environment and recorded, with
  its answer, in a trace; the oracle sees the trace so far, so that a collaborator may
  answer differently from one call to the next.
\<close>

subsection \<open>Errors\<close>

datatype StatusReason =
  StatusReasonUnknown | StatusReasonNotFound | StatusReasonForbidden
  | StatusReasonAlreadyExists | StatusReasonConflict | StatusReasonTimeout

text \<open>
  \<open>New msg\<close> is \<^verbatim>\<open>errors.New(msg)\<close>, \<open>StatusError r msg\<close> an API status error of
  the remote cluster, \<open>Wrap e msg\<close> the result of \<^verbatim>\<open>emperror.Wrap(e, msg)\<close>. The stack
  trace that the wrapper attaches is not part of the model.
\<close>

datatype error = New string | StatusError StatusReason string | Wrap error string

fun emperror_Wrap :: "error option \<Rightarrow> string \<Rightarrow> error option" where
  "emperror_Wrap None msg = None"
| "emperror_Wrap (Some e) msg = Some (Wrap e msg)"

fun emperror_Wrapf :: "error option \<Rightarrow> string \<Rightarrow> error option" where
  "emperror_Wrapf None msg = None"
| "emperror_Wrapf (Some e) msg = Some (Wrap e msg)"

text \<open>
  \<^verbatim>\<open>k8serrors.IsNotFound\<close>: the reason of a status error is looked at directly, a
  wrapped error is not unwrapped.
\<close>

fun k8serrors_IsNotFound :: "error option \<Rightarrow> bool" where
  "k8serrors_IsNotFound (Some (StatusError r msg)) = (r = StatusReasonNotFound)"
| "k8serrors_IsNotFound e = False"

datatype 'a outcome = Returned 'a | Panic

subsection \<open>Data\<close>

datatype RemoteIstio = RemoteIstio (Name: string) (Namespace: string)

datatype Istio = Istio (IstioName: string) (IstioNamespace: string)

datatype ApiConfig = ApiConfig string

datatype RestConfig = RestConfig string

datatype Manager = Manager string

datatype Client = Client string

datatype DynamicClient = DynamicClient string

datatype Informer = Informer string

datatype Controller = Controller string

datatype chan = Open | Closed

text \<open>
  The struct \<^verbatim>\<open>Cluster\<close>. The fields \<^verbatim>\<open>stop\<close> and \<^verbatim>\<open>stopper\<close> are the two ends of one
  channel; \<open>stopper\<close> holds the state of that channel. \<open>initClient\<close> and
  \<open>initInformers\<close> are the \<^verbatim>\<open>done\<close> flags of the two \<^verbatim>\<open>sync.Once\<close> values. The logger
  is left out.
\<close>

record Cluster =
  name :: string
  config :: string
  stopper :: chan
  initClient :: bool
  initInformers :: bool
  mgr :: "Manager option"
  restConfig :: "RestConfig option"
  ctrlRuntimeClient :: "Client option"
  dynamicClient :: "DynamicClient option"
  istioConfig :: "Istio option"
  remoteConfig :: "RemoteIstio option"
  ctrl :: Controller

subsection \<open>Watch events, predicates and requests\<close>

datatype MapObject = MapObject (ObjName: string) (ObjNamespace: string)


datatype Request = Request (ReqName: string) (ReqNamespace: string)

text \<open>\<^verbatim>\<open>predicate.Funcs\<close>: one function per kind of event.\<close>

record Funcs =
  CreateFunc :: "MapObject \<Rightarrow> bool"
  DeleteFunc :: "MapObject \<Rightarrow> bool"
  GenericFunc :: "MapObject \<Rightarrow> bool"
  UpdateFunc :: "MapObject \<Rightarrow> MapObject \<Rightarrow> bool"


subsection \<open>Collaborators and the trace of their calls\<close>

text \<open>The six entries of \<^verbatim>\<open>ReconcilerFuncs\<close>, named as in the source.\<close>

datatype step =
  reconcileConfig | reconcileSignCert | reconcileCARootToNamespaces
  | reconcileEnabledServices | ReconcileEnabledServiceEndpoints | reconcileComponents

text \<open>
  Modelled from the spec: the methods \<^verbatim>\<open>istiocrd\<close> and \<^verbatim>\<open>meshgatewaycrd\<close> of
  \<^verbatim>\<open>Cluster\<close> are defined in another file of the package. The spec names what they
  describe: the two top-level installed resources, the mesh control plane and its
  gateway component. Here they are the two values of a type of resource descriptors.
\<close>

datatype crd = istiocrd | meshgatewaycrd

text \<open>
  One entry per call to a collaborator, with the error it answered. The entry of
  \<^verbatim>\<open>Watch\<close> also carries what the controller was handed: the controller itself, the
  informer of the source, the mapping of the handler and the predicate.
\<close>

datatype call =
  CallReconcileCRDs "RemoteIstio option" "Istio option" "error option"
  | CallManagerNew "error option"
  | CallManagerStart
  | CallWaitForCacheSync
  | CallMeshgatewayAdd
  | CallGetClient
  | CallDynamicNewForConfig "error option"
  | CallGetInformerForKind "error option"
  | CallWatch Controller Informer "Cluster \<Rightarrow> MapObject \<Rightarrow> Request list outcome" Funcs
      "error option"
  | CallStep step "RemoteIstio option" "Istio option" "error option"
  | CallDelete crd "error option"

text \<open>
  Modelled from the spec: the methods \<^verbatim>\<open>reconcileCRDs\<close>, \<^verbatim>\<open>reconcileConfig\<close>,
  \<^verbatim>\<open>reconcileSignCert\<close>, \<^verbatim>\<open>reconcileCARootToNamespaces\<close>, \<^verbatim>\<open>reconcileEnabledServices\<close>,
  \<^verbatim>\<open>ReconcileEnabledServiceEndpoints\<close> and \<^verbatim>\<open>reconcileComponents\<close> of \<^verbatim>\<open>Cluster\<close> are
  defined in other files of the package. The spec describes each as a step that acts on
  the remote cluster and returns an error, and the desired global configuration as an
  attribute of the Cluster used for the removal decision. Here each is an oracle
  (\<open>env_reconcileCRDs\<close>, \<open>env_step\<close>) that reads the Cluster and the two
  configurations, answers an error or nil, and gives the new value of the field
  \<^verbatim>\<open>istioConfig\<close>, the one field that cluster.go reads and never assigns. The other
  oracles stand for the libraries: \<^verbatim>\<open>clientcmd\<close>, \<^verbatim>\<open>manager.New\<close>,
  \<^verbatim>\<open>dynamic.NewForConfig\<close>, the cache's \<^verbatim>\<open>GetInformerForKind\<close>, the controller's
  \<^verbatim>\<open>Watch\<close>, the manager's \<^verbatim>\<open>GetClient\<close> and the client's \<^verbatim>\<open>Delete\<close>.
\<close>

record env =
  env_Load :: "string \<Rightarrow> error + ApiConfig"
  env_ClientConfig :: "ApiConfig \<Rightarrow> error + RestConfig"
  env_reconcileCRDs ::
    "call list \<Rightarrow> Cluster \<Rightarrow> RemoteIstio option \<Rightarrow> Istio option \<Rightarrow> error option \<times> Istio option"
  env_step ::
    "step \<Rightarrow> call list \<Rightarrow> Cluster \<Rightarrow> RemoteIstio option \<Rightarrow> Istio option
      \<Rightarrow> error option \<times> Istio option"
  env_manager_New :: "call list \<Rightarrow> RestConfig option \<Rightarrow> error + Manager"
  env_GetClient :: "Manager \<Rightarrow> Client"
  env_dynamic_NewForConfig :: "call list \<Rightarrow> RestConfig option \<Rightarrow> error + DynamicClient"
  env_GetInformerForKind :: "call list \<Rightarrow> Manager \<Rightarrow> error + Informer"
  env_Watch ::
    "call list \<Rightarrow> Controller \<Rightarrow> Informer \<Rightarrow> (Cluster \<Rightarrow> MapObject \<Rightarrow> Request list outcome)
      \<Rightarrow> Funcs \<Rightarrow> error option"
  env_Delete :: "call list \<Rightarrow> Client \<Rightarrow> crd \<Rightarrow> error option"

text \<open>The state of a run: the Cluster and the trace of calls made so far.\<close>

type_synonym state = "Cluster \<times> call list"

subsection \<open>Construction and accessors\<close>

definition getRestConfig :: "env \<Rightarrow> string \<Rightarrow> error + RestConfig" where
  "getRestConfig E kubeconfig =
     (case env_Load E kubeconfig of
        Inl err \<Rightarrow> Inl (Wrap err ''could not load kubeconfig'')
      | Inr clusterConfig \<Rightarrow>
          (case env_ClientConfig E clusterConfig of
             Inl err \<Rightarrow> Inl (Wrap err ''could not create k8s rest config'')
           | Inr rest \<Rightarrow> Inr rest))"

definition NewCluster :: "env \<Rightarrow> string \<Rightarrow> Controller \<Rightarrow> string \<Rightarrow> error + Cluster" where
  "NewCluster E nm ct cfg =
     (let cluster = \<lparr> name = nm, config = cfg, stopper = Open,
                       initClient = False, initInformers = False, mgr = None,
                       restConfig = None, ctrlRuntimeClient = None, dynamicClient = None,
                       istioConfig = None, remoteConfig = None, ctrl = ct \<rparr>
      in case getRestConfig E cfg of
           Inl err \<Rightarrow> Inl (Wrap err ''could not get k8s rest config'')
         | Inr rc \<Rightarrow> Inr (cluster\<lparr>restConfig := Some rc\<rparr>))"

definition GetName :: "Cluster \<Rightarrow> string" where
  "GetName c = name c"

definition GetRemoteConfig :: "Cluster \<Rightarrow> RemoteIstio option" where
  "GetRemoteConfig c = remoteConfig c"

subsection \<open>Watch initialization\<close>

text \<open>
  The \<^verbatim>\<open>ToRequests\<close> closure of the watch. It reads \<^verbatim>\<open>c.remoteConfig\<close> when an event
  arrives; a nil pointer there is a panic.
\<close>

definition ToRequests :: "Cluster \<Rightarrow> MapObject \<Rightarrow> Request list outcome" where
  "ToRequests c object =
     (case remoteConfig c of
        None \<Rightarrow> Panic
      | Some rc \<Rightarrow> Returned [Request (Name rc) (Namespace rc)])"

text \<open>The \<^verbatim>\<open>predicate.Funcs\<close> literal of the watch.\<close>

definition namespacePredicate :: Funcs where
  "namespacePredicate =
     \<lparr> CreateFunc = (\<lambda>e. True),
       DeleteFunc = (\<lambda>e. False),
       GenericFunc = (\<lambda>e. False),
       UpdateFunc = (\<lambda>old new. False) \<rparr>"

definition initK8sInformers :: "env \<Rightarrow> state \<Rightarrow> error option outcome \<times> state" where
  "initK8sInformers E s =
     (case s of (c, t) \<Rightarrow>
        (case remoteConfig c of
           None \<Rightarrow> (Returned (Some (New ''remoteconfig must be set'')), (c, t))
         | Some rc \<Rightarrow>
             (case mgr c of
                None \<Rightarrow> (Panic, (c, t))
              | Some m \<Rightarrow>
                  (case env_GetInformerForKind E t m of
                     Inl err \<Rightarrow>
                       (Returned (emperror_Wrap (Some err) ''could not get informer for namespaces''),
                        (c, t @ [CallGetInformerForKind (Some err)]))
                   | Inr informer \<Rightarrow>
                       (let t1 = t @ [CallGetInformerForKind None];
                            err = env_Watch E t1 (ctrl c) informer ToRequests namespacePredicate;
                            t2 = t1 @ [CallWatch (ctrl c) informer ToRequests namespacePredicate err]
                        in if err \<noteq> None
                           then (Returned (emperror_Wrap err
                                   ''could not set watcher for namespaces informer''), (c, t2))
                           else (Returned None, (c, t2)))))))"

subsection \<open>Client initialization\<close>

text \<open>
  \<^verbatim>\<open>startManager\<close>: the manager is started in a goroutine of its own, which the model
  records as one trace entry, and the wait for the cache is taken to return (the source
  ignores its result and sets no timeout).
\<close>

definition startManager :: "env \<Rightarrow> RestConfig option \<Rightarrow> state \<Rightarrow> error option \<times> state" where
  "startManager E cfg s =
     (case s of (c, t) \<Rightarrow>
        (case env_manager_New E t cfg of
           Inl err \<Rightarrow>
             (emperror_Wrap (Some err) ''could not create manager'',
              (c, t @ [CallManagerNew (Some err)]))
         | Inr m \<Rightarrow>
             (None, (c\<lparr>mgr := Some m\<rparr>,
                     t @ [CallManagerNew None, CallManagerStart, CallWaitForCacheSync]))))"

definition initK8SClients :: "env \<Rightarrow> state \<Rightarrow> error option outcome \<times> state" where
  "initK8SClients E s =
     (case startManager E (restConfig (fst s)) s of
        (Some err, s1) \<Rightarrow> (Returned (Some err), s1)
      | (None, (c1, t1)) \<Rightarrow>
          (case mgr c1 of
             None \<Rightarrow> (Panic, (c1, t1))
           | Some m \<Rightarrow>
               (let t2 = t1 @ [CallMeshgatewayAdd, CallGetClient];
                    c2 = c1\<lparr>ctrlRuntimeClient := Some (env_GetClient E m)\<rparr>
                in case env_dynamic_NewForConfig E t2 (restConfig c2) of
                     Inl err \<Rightarrow>
                       (Returned (emperror_Wrap (Some err) ''could not get dynamic client''),
                        (c2, t2 @ [CallDynamicNewForConfig (Some err)]))
                   | Inr d \<Rightarrow>
                       (Returned None,
                        (c2\<lparr>dynamicClient := Some d\<rparr>, t2 @ [CallDynamicNewForConfig None])))))"

subsection \<open>Reconcile\<close>

definition ReconcilerFuncs :: "step list" where
  "ReconcilerFuncs =
     [reconcileConfig, reconcileSignCert, reconcileCARootToNamespaces,
      reconcileEnabledServices, ReconcileEnabledServiceEndpoints, reconcileComponents]"

text \<open>The \<^verbatim>\<open>for _, f := range ReconcilerFuncs\<close> loop: the first error ends it.\<close>

fun runReconcilerFuncs ::
  "env \<Rightarrow> step list \<Rightarrow> RemoteIstio option \<Rightarrow> Istio option \<Rightarrow> state \<Rightarrow> error option \<times> state"
where
  "runReconcilerFuncs E [] remoteCfg istio s = (None, s)"
| "runReconcilerFuncs E (f # fs) remoteCfg istio s =
     (case s of (c, t) \<Rightarrow>
        (case env_step E f t c remoteCfg istio of (err, ic) \<Rightarrow>
           (let s1 = (c\<lparr>istioConfig := ic\<rparr>, t @ [CallStep f remoteCfg istio err])
            in if err \<noteq> None
               then (emperror_Wrapf err ''could not reconcile'', s1)
               else runReconcilerFuncs E fs remoteCfg istio s1)))"

text \<open>
  \<^verbatim>\<open>sync.Once.Do\<close>, for a closure that assigns the captured variable \<^verbatim>\<open>err\<close>: when the
  flag is set the closure is not run and \<^verbatim>\<open>err\<close> keeps its value, nil at both places
  of use; otherwise the closure runs and the flag is set when it returns or panics.
\<close>

definition Reconcile ::
  "env \<Rightarrow> RemoteIstio option \<Rightarrow> Istio option \<Rightarrow> state \<Rightarrow> error option outcome \<times> state"
where
  "Reconcile E remoteCfg istio s =
     (case s of (c, t) \<Rightarrow>
        (case env_reconcileCRDs E t c remoteCfg istio of (err0, ic) \<Rightarrow>
           (let c0 = c\<lparr>istioConfig := ic\<rparr>;
                t0 = t @ [CallReconcileCRDs remoteCfg istio err0]
            in if err0 \<noteq> None
               then (Returned (emperror_Wrapf err0 ''could not reconcile''), (c0, t0))
               else
                 (let c1 = c0\<lparr>remoteConfig := remoteCfg\<rparr>
                  in case (if initClient c1 then (Returned None, (c1, t0))
                           else (case initK8SClients E (c1, t0) of
                                   (r, (c', t')) \<Rightarrow> (r, (c'\<lparr>initClient := True\<rparr>, t'))))
                     of
                       (Panic, s2) \<Rightarrow> (Panic, s2)
                     | (Returned (Some err), s2) \<Rightarrow>
                         (Returned (emperror_Wrap (Some err) ''could not init k8s clients''), s2)
                     | (Returned None, (c2, t2)) \<Rightarrow>
                         (case (if initInformers c2 then (Returned None, (c2, t2))
                                else (case initK8sInformers E (c2, t2) of
                                        (r, (c', t')) \<Rightarrow> (r, (c'\<lparr>initInformers := True\<rparr>, t'))))
                          of
                            (Panic, s3) \<Rightarrow> (Panic, s3)
                          | (Returned (Some err), s3) \<Rightarrow>
                              (Returned (emperror_Wrap (Some err)
                                 ''could not init k8s informers''), s3)
                          | (Returned None, s3) \<Rightarrow>
                              (case runReconcilerFuncs E ReconcilerFuncs remoteCfg istio s3 of
                                 (err, s4) \<Rightarrow> (Returned err, s4)))))))"

subsection \<open>Removal and shutdown\<close>

text \<open>
  In the first \<^verbatim>\<open>if\<close> the wrapped error is built and dropped: the source has no
  \<^verbatim>\<open>return\<close> there. A call of \<^verbatim>\<open>Delete\<close> on a nil client is a panic.
\<close>

definition RemoveRemoteIstioComponents :: "env \<Rightarrow> state \<Rightarrow> error option outcome \<times> state" where
  "RemoveRemoteIstioComponents E s =
     (case s of (c, t) \<Rightarrow>
        (case istioConfig c of
           None \<Rightarrow> (Returned None, (c, t))
         | Some ic \<Rightarrow>
             (case ctrlRuntimeClient c of
                None \<Rightarrow> (Panic, (c, t))
              | Some cl \<Rightarrow>
                  (let err1 = env_Delete E t cl istiocrd;
                       t1 = t @ [CallDelete istiocrd err1];
                       dropped = (if err1 \<noteq> None \<and> \<not> k8serrors_IsNotFound err1
                                  then emperror_Wrap err1
                                         ''could not remove istio CRD from remote cluster''
                                  else None);
                       err2 = env_Delete E t1 cl meshgatewaycrd;
                       t2 = t1 @ [CallDelete meshgatewaycrd err2]
                   in if err2 \<noteq> None \<and> k8serrors_IsNotFound err2
                      then (Returned (emperror_Wrap err2
                              ''could not remove mesh gateway CRD from remote cluster''), (c, t2))
                      else (Returned None, (c, t2))))))"

text \<open>\<^verbatim>\<open>close(c.stopper)\<close>: closing a closed channel is a panic.\<close>

definition Shutdown :: "state \<Rightarrow> unit outcome \<times> state" where
  "Shutdown s =
     (case s of (c, t) \<Rightarrow>
        (case stopper c of
           Closed \<Rightarrow> (Panic, (c, t))
         | Open \<Rightarrow> (Returned (), (c\<lparr>stopper := Closed\<rparr>, t))))"

subsection \<open>Concrete environments and inputs\<close>

definition remote0 :: RemoteIstio where
  "remote0 = RemoteIstio ''remote-istio'' ''istio-system''"

definition istio0 :: Istio where
  "istio0 = Istio ''mesh'' ''istio-system''"

definition refused :: error where
  "refused = New ''connection refused''"

definition forbidden :: error where
  "forbidden = StatusError StatusReasonForbidden ''forbidden''"

definition notFound :: error where
  "notFound = StatusError StatusReasonNotFound ''not found''"

text \<open>
  An environment in which every collaborator succeeds; its \<^verbatim>\<open>reconcileConfig\<close> step
  records the global configuration in \<^verbatim>\<open>istioConfig\<close>.
\<close>

definition healthy :: env where
  "healthy =
     \<lparr> env_Load = (\<lambda>kubeconfig. Inr (ApiConfig kubeconfig)),
       env_ClientConfig = (\<lambda>a. case a of ApiConfig x \<Rightarrow> Inr (RestConfig x)),
       env_reconcileCRDs = (\<lambda>t c r i. (None, istioConfig c)),
       env_step = (\<lambda>f t c r i. (None, if f = reconcileConfig then i else istioConfig c)),
       env_manager_New = (\<lambda>t cfg. Inr (Manager ''remote'')),
       env_GetClient = (\<lambda>m. case m of Manager x \<Rightarrow> Client x),
       env_dynamic_NewForConfig = (\<lambda>t cfg. Inr (DynamicClient ''remote'')),
       env_GetInformerForKind = (\<lambda>t m. Inr (Informer ''Namespace'')),
       env_Watch = (\<lambda>t ct src f p. None),
       env_Delete = (\<lambda>t cl x. None) \<rparr>"

text \<open>The Cluster that \<^verbatim>\<open>NewCluster\<close> builds in the healthy environment.\<close>

definition cluster0 :: Cluster where
  "cluster0 =
     \<lparr> name = ''c1'', config = ''kubeconfig'', stopper = Open,
       initClient = False, initInformers = False, mgr = None,
       restConfig = Some (RestConfig ''kubeconfig''), ctrlRuntimeClient = None,
       dynamicClient = None, istioConfig = None, remoteConfig = None,
       ctrl = Controller ''remoteistio-controller'' \<rparr>"

text \<open>The same Cluster after one successful \<^verbatim>\<open>Reconcile\<close> in the healthy environment.\<close>

definition cluster1 :: Cluster where
  "cluster1 =
     \<lparr> name = ''c1'', config = ''kubeconfig'', stopper = Open,
       initClient = True, initInformers = True, mgr = Some (Manager ''remote''),
       restConfig = Some (RestConfig ''kubeconfig''),
       ctrlRuntimeClient = Some (Client ''remote''),
       dynamicClient = Some (DynamicClient ''remote''), istioConfig = Some istio0,
       remoteConfig = Some remote0, ctrl = Controller ''remoteistio-controller'' \<rparr>"

text \<open>\<^verbatim>\<open>manager.New\<close> fails until it has been called once, then succeeds.\<close>

definition managerFailsOnce :: env where
  "managerFailsOnce =
     healthy\<lparr>env_manager_New :=
       (\<lambda>t cfg. if \<exists>e \<in> set t. (case e of CallManagerNew x \<Rightarrow> True | _ \<Rightarrow> False)
                 then Inr (Manager ''remote'') else Inl refused)\<rparr>"

text \<open>The step \<open>f\<close> fails with \<open>refused\<close>, every other collaborator succeeds.\<close>

definition stepFails :: "step \<Rightarrow> env" where
  "stepFails f =
     healthy\<lparr>env_step := (\<lambda>g t c r i. (if g = f then Some refused else None, istioConfig c))\<rparr>"

text \<open>\<^verbatim>\<open>Delete\<close> answers \<open>e1\<close> for the Istio resource and \<open>e2\<close> for the mesh gateway.\<close>

definition deleteAnswers :: "error option \<Rightarrow> error option \<Rightarrow> env" where
  "deleteAnswers e1 e2 =
     healthy\<lparr>env_Delete := (\<lambda>t cl x. case x of istiocrd \<Rightarrow> e1 | meshgatewaycrd \<Rightarrow> e2)\<rparr>"

text \<open>\<^verbatim>\<open>Watch\<close> fails with \<open>refused\<close>, every other collaborator succeeds.\<close>

definition watchFails :: env where
  "watchFails = healthy\<lparr>env_Watch := (\<lambda>t ct src f p. Some refused)\<rparr>"


text \<open>\<^verbatim>\<open>reconcileCRDs\<close> fails with \<open>refused\<close>, every other collaborator succeeds.\<close>

definition crdsFail :: env where
  "crdsFail = healthy\<lparr>env_reconcileCRDs := (\<lambda>t c r i. (Some refused, istioConfig c))\<rparr>"

subsection \<open>Kinds of trace entries\<close>

fun isStep :: "call \<Rightarrow> bool" where
  "isStep (CallStep f r i e) = True"
| "isStep x = False"

fun isClientInit :: "call \<Rightarrow> bool" where
  "isClientInit (CallManagerNew e) = True"
| "isClientInit CallManagerStart = True"
| "isClientInit CallWaitForCacheSync = True"
| "isClientInit CallMeshgatewayAdd = True"
| "isClientInit CallGetClient = True"
| "isClientInit (CallDynamicNewForConfig e) = True"
| "isClientInit x = False"

fun isInformerInit :: "call \<Rightarrow> bool" where
  "isInformerInit (CallGetInformerForKind e) = True"
| "isInformerInit (CallWatch ct src h p e) = True"
| "isInformerInit x = False"

text \<open>
  The entries of a client initialization that gets as far as the dynamic client, which
  answers \<open>e\<close>.
\<close>

definition clientCalls :: "error option \<Rightarrow> call list" where
  "clientCalls e =
     [CallManagerNew None, CallManagerStart, CallWaitForCacheSync, CallMeshgatewayAdd,
      CallGetClient, CallDynamicNewForConfig e]"

text \<open>
  The entries of a watch initialization that gets as far as \<^verbatim>\<open>Watch\<close>, which answers
  \<open>e\<close>: the controller \<open>ct\<close> is handed the informer \<open>src\<close>, the mapping
  \<open>ToRequests\<close> and the predicate \<open>namespacePredicate\<close>.
\<close>

definition watchCalls :: "Controller \<Rightarrow> Informer \<Rightarrow> error option \<Rightarrow> call list" where
  "watchCalls ct src e =
     [CallGetInformerForKind None, CallWatch ct src ToRequests namespacePredicate e]"

text \<open>The entries that one call added to the trace \<open>t\<close>, given the trace \<open>t'\<close> after it.\<close>

definition added :: "call list \<Rightarrow> call list \<Rightarrow> call list" where
  "added t t' = drop (length t) t'"

text \<open>The trace entry of a step that returned nil.\<close>

definition stepOK :: "RemoteIstio option \<Rightarrow> Istio option \<Rightarrow> step \<Rightarrow> call" where
  "stepOK r i f = CallStep f r i None"

section \<open>Properties\<close>

subsection \<open>The concrete inputs\<close>

lemma NewCluster_healthy:
  "NewCluster healthy ''c1'' (Controller ''remoteistio-controller'') ''kubeconfig'' = Inr cluster0"
  by (simp add: NewCluster_def getRestConfig_def healthy_def cluster0_def)

lemma Reconcile_healthy:
  "fst (Reconcile healthy (Some remote0) (Some istio0) (cluster0, [])) = Returned None \<and>
   fst (snd (Reconcile healthy (Some remote0) (Some istio0) (cluster0, []))) = cluster1"
  by (simp add: Reconcile_def initK8SClients_def initK8sInformers_def startManager_def
      ReconcilerFuncs_def healthy_def cluster0_def cluster1_def)

lemmas run_defs = Reconcile_def initK8SClients_def initK8sInformers_def startManager_def
  ReconcilerFuncs_def

lemmas input_defs = healthy_def cluster0_def cluster1_def remote0_def istio0_def refused_def
  managerFailsOnce_def stepFails_def crdsFail_def

subsection \<open>The shape of every run of Reconcile\<close>

lemma added_append [simp]: "added t (t @ ext) = ext"
  by (simp add: added_def)

lemma added_self [simp]: "added t t = []"
  by (simp add: added_def)

text \<open>
  The loop over \<^verbatim>\<open>ReconcilerFuncs\<close> either runs every step, each answering nil, or
  stops right after the first step that answers an error.
\<close>

lemma runReconcilerFuncs_cases:
  "runReconcilerFuncs E fs r i (c, t) = (res, (c', t')) \<Longrightarrow>
     (res = None \<and> t' = t @ map (stepOK r i) fs) \<or>
     (\<exists>k e. k < length fs \<and> res = Some (Wrap e ''could not reconcile'') \<and>
        t' = t @ map (stepOK r i) (take k fs) @ [CallStep (fs ! k) r i (Some e)])"
proof (induction fs arbitrary: c t)
  case Nil
  then show ?case by simp
next
  case (Cons f fs)
  obtain err ic where st: "env_step E f t c r i = (err, ic)"
    by (cases "env_step E f t c r i")
  show ?case
  proof (cases err)
    case None
    with Cons.prems st
    have run: "runReconcilerFuncs E fs r i (c\<lparr>istioConfig := ic\<rparr>, t @ [CallStep f r i None])
                 = (res, (c', t'))"
      by simp
    from Cons.IH [OF run] show ?thesis
    proof
      assume "res = None \<and> t' = (t @ [CallStep f r i None]) @ map (stepOK r i) fs"
      then show ?thesis by (simp add: stepOK_def)
    next
      assume "\<exists>k e. k < length fs \<and> res = Some (Wrap e ''could not reconcile'') \<and>
        t' = (t @ [CallStep f r i None]) @ map (stepOK r i) (take k fs)
               @ [CallStep (fs ! k) r i (Some e)]"
      then obtain k e where k: "k < length fs" "res = Some (Wrap e ''could not reconcile'')"
        "t' = (t @ [CallStep f r i None]) @ map (stepOK r i) (take k fs)
               @ [CallStep (fs ! k) r i (Some e)]"
        by blast
      then have "Suc k < length (f # fs) \<and> res = Some (Wrap e ''could not reconcile'') \<and>
        t' = t @ map (stepOK r i) (take (Suc k) (f # fs))
               @ [CallStep ((f # fs) ! Suc k) r i (Some e)]"
        by (simp add: stepOK_def)
      then show ?thesis by blast
    qed
  next
    case (Some e)
    with Cons.prems st
    have "0 < length (f # fs) \<and> res = Some (Wrap e ''could not reconcile'') \<and>
        t' = t @ map (stepOK r i) (take 0 (f # fs)) @ [CallStep ((f # fs) ! 0) r i (Some e)]"
      by auto
    then show ?thesis by blast
  qed
qed

text \<open>The loop touches no field of the Cluster but \<^verbatim>\<open>istioConfig\<close>.\<close>

lemma runReconcilerFuncs_frame:
  "runReconcilerFuncs E fs r i (c, t) = (res, (c', t')) \<Longrightarrow>
     remoteConfig c' = remoteConfig c \<and> initClient c' = initClient c \<and>
     initInformers c' = initInformers c"
proof (induction fs arbitrary: c t)
  case Nil
  then show ?case by simp
next
  case (Cons f fs)
  obtain err ic where st: "env_step E f t c r i = (err, ic)"
    by (cases "env_step E f t c r i")
  show ?case
  proof (cases err)
    case None
    with Cons.prems st
    have run: "runReconcilerFuncs E fs r i (c\<lparr>istioConfig := ic\<rparr>, t @ [CallStep f r i None])
                 = (res, (c', t'))"
      by simp
    from Cons.IH [OF run] show ?thesis by simp
  next
    case (Some e)
    with Cons.prems st show ?thesis by auto
  qed
qed

text \<open>
  The three ways \<^verbatim>\<open>initK8SClients\<close> can end; it never panics, since a manager that
  was created is there when the client is taken from it.
\<close>

lemma initK8SClients_cases:
  assumes "initK8SClients E (c, t) = (res, (c', t'))"
  shows "\<exists>ext. t' = t @ ext \<and> ext \<noteq> [] \<and> (\<forall>x \<in> set ext. isClientInit x) \<and>
           remoteConfig c' = remoteConfig c \<and> initClient c' = initClient c \<and>
           initInformers c' = initInformers c \<and> ctrl c' = ctrl c \<and>
           (res = Returned None \<and> mgr c' \<noteq> None \<and> ctrlRuntimeClient c' \<noteq> None
              \<and> dynamicClient c' \<noteq> None \<and> ext = clientCalls None
            \<or> (\<exists>x. res = Returned (Some (Wrap x ''could not create manager'')) \<and>
                  ext = [CallManagerNew (Some x)] \<and> c' = c)
            \<or> (\<exists>x. res = Returned (Some (Wrap x ''could not get dynamic client'')) \<and>
                  ext = clientCalls (Some x) \<and>
                  last ext = CallDynamicNewForConfig (Some x)))"
  using assms
  by (auto simp add: initK8SClients_def startManager_def Let_def clientCalls_def
      split: sum.splits option.splits prod.splits)

text \<open>The five ways \<^verbatim>\<open>initK8sInformers\<close> can end.\<close>

lemma initK8sInformers_cases:
  assumes "initK8sInformers E (c, t) = (res, (c', t'))"
  shows "\<exists>ext. t' = t @ ext \<and> (\<forall>x \<in> set ext. isInformerInit x) \<and> c' = c \<and>
           ((\<exists>src. res = Returned None \<and> remoteConfig c \<noteq> None \<and> mgr c \<noteq> None \<and>
                  ext = watchCalls (ctrl c) src None)
            \<or> res = Panic \<and> ext = [] \<and> remoteConfig c \<noteq> None \<and> mgr c = None
            \<or> res = Returned (Some (New ''remoteconfig must be set'')) \<and> ext = []
                \<and> remoteConfig c = None
            \<or> (\<exists>x. res = Returned (Some (Wrap x ''could not get informer for namespaces'')) \<and>
                  ext = [CallGetInformerForKind (Some x)])
            \<or> (\<exists>x src. res = Returned (Some (Wrap x
                    ''could not set watcher for namespaces informer'')) \<and>
                  ext = watchCalls (ctrl c) src (Some x)))"
  using assms
  by (auto simp add: initK8sInformers_def Let_def watchCalls_def
      split: sum.splits option.splits prod.splits if_splits)

text \<open>
  The five ways \<^verbatim>\<open>Reconcile\<close> can end: the pre-reconciliation step fails; the client
  initialization fails; the watch initialization panics for want of a manager; the watch
  initialization fails; the pipeline is run. \<open>A\<close>, \<open>B\<close> and \<open>S\<close> are the trace entries
  of the client initialization, of the watch initialization and of the pipeline.
\<close>

lemma Reconcile_cases:
  assumes R: "Reconcile E r i (c, t) = (res, (c', t'))"
    and pre: "env_reconcileCRDs E t c r i = (err0, ic)"
  obtains
    (PreFail) e where "err0 = Some e"
      "res = Returned (Some (Wrap e ''could not reconcile''))"
      "c' = c\<lparr>istioConfig := ic\<rparr>" "t' = t @ [CallReconcileCRDs r i (Some e)]"
  | (ClientFail) A x where "err0 = None" "\<not> initClient c"
      "res = Returned (Some (Wrap x ''could not init k8s clients''))"
      "t' = t @ [CallReconcileCRDs r i None] @ A" "A \<noteq> []" "\<forall>a \<in> set A. isClientInit a"
      "remoteConfig c' = r" "initClient c'" "initInformers c' = initInformers c"
      "(\<exists>y. x = Wrap y ''could not create manager'' \<and> A = [CallManagerNew (Some y)])
       \<or> (\<exists>y. x = Wrap y ''could not get dynamic client'' \<and>
             last A = CallDynamicNewForConfig (Some y))"
      "(\<exists>y. x = Wrap y ''could not create manager'' \<and> A = [CallManagerNew (Some y)])
       \<or> (\<exists>y. x = Wrap y ''could not get dynamic client'' \<and> A = clientCalls (Some y))"
  | (InformerPanic) A where "err0 = None" "\<not> initInformers c" "res = Panic"
      "t' = t @ [CallReconcileCRDs r i None] @ A" "\<forall>a \<in> set A. isClientInit a"
      "initClient c \<longrightarrow> A = []"
      "remoteConfig c' = r" "initClient c'" "initInformers c'"
      "\<not> initClient c \<longrightarrow> A = clientCalls None" "r \<noteq> None"
  | (InformerFail) A B x where "err0 = None" "\<not> initInformers c"
      "res = Returned (Some (Wrap x ''could not init k8s informers''))"
      "t' = t @ [CallReconcileCRDs r i None] @ A @ B"
      "\<forall>a \<in> set A. isClientInit a" "\<forall>b \<in> set B. isInformerInit b"
      "initClient c \<longrightarrow> A = []"
      "remoteConfig c' = r" "initClient c'" "initInformers c'"
      "x = New ''remoteconfig must be set'' \<and> r = None \<and> B = []
       \<or> (\<exists>y. x = Wrap y ''could not get informer for namespaces'' \<and>
             B = [CallGetInformerForKind (Some y)])
       \<or> (\<exists>y src. x = Wrap y ''could not set watcher for namespaces informer'' \<and>
             B = watchCalls (ctrl c) src (Some y))"
      "\<not> initClient c \<longrightarrow> A = clientCalls None"
  | (Pipeline) A B S err where "err0 = None" "res = Returned err"
      "t' = t @ [CallReconcileCRDs r i None] @ A @ B @ S"
      "\<forall>a \<in> set A. isClientInit a" "\<forall>b \<in> set B. isInformerInit b"
      "initClient c \<longrightarrow> A = []" "initInformers c \<longrightarrow> B = []"
      "remoteConfig c' = r" "initClient c'" "initInformers c'" "\<forall>s \<in> set S. isStep s"
      "err = None \<and> S = map (stepOK r i) ReconcilerFuncs
       \<or> (\<exists>k e. k < length ReconcilerFuncs \<and> err = Some (Wrap e ''could not reconcile'') \<and>
             S = map (stepOK r i) (take k ReconcilerFuncs)
                   @ [CallStep (ReconcilerFuncs ! k) r i (Some e)])"
      "\<not> initClient c \<longrightarrow> A = clientCalls None"
      "\<not> initInformers c \<longrightarrow> r \<noteq> None \<and> (\<exists>src. B = watchCalls (ctrl c) src None)"
proof (cases err0)
  case (Some e)
  with R pre show ?thesis by (intro PreFail [of e]) (simp_all add: Reconcile_def)
next
  case None
  define c1 where "c1 = c\<lparr>istioConfig := ic, remoteConfig := r\<rparr>"
  define t0 where "t0 = t @ [CallReconcileCRDs r i None]"
  define phase1 where "phase1 =
    (if initClient c1 then (Returned None, (c1, t0))
     else (case initK8SClients E (c1, t0) of (r, (c', t')) \<Rightarrow> (r, (c'\<lparr>initClient := True\<rparr>, t'))))"
  obtain r1 c2 t2 where p1: "phase1 = (r1, (c2, t2))" by (metis prod_cases3)
  have R1: "(case phase1 of
         (Panic, s2) \<Rightarrow> (Panic, s2)
       | (Returned (Some err), s2) \<Rightarrow>
           (Returned (emperror_Wrap (Some err) ''could not init k8s clients''), s2)
       | (Returned None, (c2, t2)) \<Rightarrow>
           (case (if initInformers c2 then (Returned None, (c2, t2))
                  else (case initK8sInformers E (c2, t2) of
                          (r, (c', t')) \<Rightarrow> (r, (c'\<lparr>initInformers := True\<rparr>, t'))))
            of
              (Panic, s3) \<Rightarrow> (Panic, s3)
            | (Returned (Some err), s3) \<Rightarrow>
                (Returned (emperror_Wrap (Some err) ''could not init k8s informers''), s3)
            | (Returned None, s3) \<Rightarrow>
                (case runReconcilerFuncs E ReconcilerFuncs r i s3 of
                   (err, s4) \<Rightarrow> (Returned err, s4)))) = (res, (c', t'))"
    using R unfolding Reconcile_def phase1_def c1_def t0_def
    by (simp only: prod.case pre None Let_def HOL.simp_thms if_False)
  have P1: "\<exists>A. t2 = t0 @ A \<and> (\<forall>x \<in> set A. isClientInit x) \<and> (initClient c \<longrightarrow> A = []) \<and>
      remoteConfig c2 = r \<and> initClient c2 \<and> initInformers c2 = initInformers c \<and>
      ctrl c2 = ctrl c \<and>
      (r1 = Returned None \<and> (\<not> initClient c \<longrightarrow> A = clientCalls None)
       \<or> (\<exists>y. r1 = Returned (Some (Wrap y ''could not create manager'')) \<and>
             \<not> initClient c \<and> A = [CallManagerNew (Some y)])
       \<or> (\<exists>y. r1 = Returned (Some (Wrap y ''could not get dynamic client'')) \<and>
             \<not> initClient c \<and> A \<noteq> [] \<and> A = clientCalls (Some y) \<and>
             last A = CallDynamicNewForConfig (Some y)))"
  proof (cases "initClient c")
    case True
    with p1 have "r1 = Returned None" "c2 = c1" "t2 = t0"
      by (simp_all add: phase1_def c1_def)
    with True show ?thesis by (simp add: c1_def)
  next
    case False
    obtain r0 c0 t1 where i: "initK8SClients E (c1, t0) = (r0, (c0, t1))" by (metis prod_cases3)
    with False p1 have eq: "r1 = r0" "c2 = c0\<lparr>initClient := True\<rparr>" "t2 = t1"
      by (simp_all add: phase1_def c1_def)
    from initK8SClients_cases [OF i] eq False show ?thesis
      by (auto simp add: c1_def)
  qed
  then obtain A where A: "t2 = t0 @ A" "\<forall>x \<in> set A. isClientInit x" "initClient c \<longrightarrow> A = []"
      "remoteConfig c2 = r" "initClient c2" "initInformers c2 = initInformers c"
      "r1 = Returned None \<and> (\<not> initClient c \<longrightarrow> A = clientCalls None)
       \<or> (\<exists>y. r1 = Returned (Some (Wrap y ''could not create manager'')) \<and>
             \<not> initClient c \<and> A = [CallManagerNew (Some y)])
       \<or> (\<exists>y. r1 = Returned (Some (Wrap y ''could not get dynamic client'')) \<and>
             \<not> initClient c \<and> A \<noteq> [] \<and> A = clientCalls (Some y) \<and>
             last A = CallDynamicNewForConfig (Some y))"
      "ctrl c2 = ctrl c"
    by blast
  show ?thesis
  proof (cases "r1 = Returned None")
    case False
    with A(7) obtain x where x: "r1 = Returned (Some x)"
      "(\<exists>y. x = Wrap y ''could not create manager'' \<and> A = [CallManagerNew (Some y)])
       \<or> (\<exists>y. x = Wrap y ''could not get dynamic client'' \<and>
             last A = CallDynamicNewForConfig (Some y))"
      "\<not> initClient c" "A \<noteq> []"
      "(\<exists>y. x = Wrap y ''could not create manager'' \<and> A = [CallManagerNew (Some y)])
       \<or> (\<exists>y. x = Wrap y ''could not get dynamic client'' \<and> A = clientCalls (Some y))"
      by auto
    from R1 p1 x(1) have fin: "res = Returned (Some (Wrap x ''could not init k8s clients''))"
      "c' = c2" "t' = t2"
      by simp_all
    show ?thesis
      using None x A(1-6) fin by (intro ClientFail [of x A]) (simp_all add: t0_def)
  next
    case True
    with A(7) have Aok: "\<not> initClient c \<longrightarrow> A = clientCalls None"
      by auto
    define phase2 where "phase2 =
      (if initInformers c2 then (Returned None, (c2, t2))
       else (case initK8sInformers E (c2, t2) of
               (r, (c', t')) \<Rightarrow> (r, (c'\<lparr>initInformers := True\<rparr>, t'))))"
    obtain r2 c3 t3 where p2: "phase2 = (r2, (c3, t3))" by (metis prod_cases3)
    have R2: "(case phase2 of
              (Panic, s3) \<Rightarrow> (Panic, s3)
            | (Returned (Some err), s3) \<Rightarrow>
                (Returned (emperror_Wrap (Some err) ''could not init k8s informers''), s3)
            | (Returned None, s3) \<Rightarrow>
                (case runReconcilerFuncs E ReconcilerFuncs r i s3 of
                   (err, s4) \<Rightarrow> (Returned err, s4))) = (res, (c', t'))"
      using R1 p1 True by (simp add: phase2_def)
    have P2: "\<exists>B. t3 = t2 @ B \<and> (\<forall>x \<in> set B. isInformerInit x) \<and> (initInformers c \<longrightarrow> B = []) \<and>
      remoteConfig c3 = r \<and> initClient c3 \<and> initInformers c3 \<and>
      (r2 = Returned None \<and>
         (\<not> initInformers c \<longrightarrow> r \<noteq> None \<and> (\<exists>src. B = watchCalls (ctrl c) src None))
       \<or> r2 = Panic \<and> \<not> initInformers c \<and> B = [] \<and> r \<noteq> None
       \<or> r2 = Returned (Some (New ''remoteconfig must be set'')) \<and> \<not> initInformers c
           \<and> r = None \<and> B = []
       \<or> (\<exists>y. r2 = Returned (Some (Wrap y ''could not get informer for namespaces'')) \<and>
             \<not> initInformers c \<and> B = [CallGetInformerForKind (Some y)])
       \<or> (\<exists>y src. r2 = Returned (Some (Wrap y ''could not set watcher for namespaces informer''))
             \<and> \<not> initInformers c \<and> B = watchCalls (ctrl c) src (Some y)))"
    proof (cases "initInformers c")
      case True
      with p2 A(6) have "r2 = Returned None" "c3 = c2" "t3 = t2"
        by (simp_all add: phase2_def)
      with True A show ?thesis by simp
    next
      case False
      obtain r0 c0 t1 where i: "initK8sInformers E (c2, t2) = (r0, (c0, t1))"
        by (metis prod_cases3)
      with False p2 A(6) have eq: "r2 = r0" "c3 = c0\<lparr>initInformers := True\<rparr>" "t3 = t1"
        by (simp_all add: phase2_def)
      from initK8sInformers_cases [OF i] eq False A(4,5,8) show ?thesis
        by auto
    qed
    then obtain B where B: "t3 = t2 @ B" "\<forall>x \<in> set B. isInformerInit x"
      "initInformers c \<longrightarrow> B = []" "remoteConfig c3 = r" "initClient c3" "initInformers c3"
      "r2 = Returned None \<and>
         (\<not> initInformers c \<longrightarrow> r \<noteq> None \<and> (\<exists>src. B = watchCalls (ctrl c) src None))
       \<or> r2 = Panic \<and> \<not> initInformers c \<and> B = [] \<and> r \<noteq> None
       \<or> r2 = Returned (Some (New ''remoteconfig must be set'')) \<and> \<not> initInformers c
           \<and> r = None \<and> B = []
       \<or> (\<exists>y. r2 = Returned (Some (Wrap y ''could not get informer for namespaces'')) \<and>
             \<not> initInformers c \<and> B = [CallGetInformerForKind (Some y)])
       \<or> (\<exists>y src. r2 = Returned (Some (Wrap y ''could not set watcher for namespaces informer''))
             \<and> \<not> initInformers c \<and> B = watchCalls (ctrl c) src (Some y))"
      by blast
    consider (ok) "r2 = Returned None" | (panic) "r2 = Panic" | (err) x where "r2 = Returned (Some x)"
      by (metis outcome.exhaust option.exhaust)
    then show ?thesis
    proof cases
      case panic
      with R2 p2 have fin: "res = Panic" "c' = c3" "t' = t3"
        by simp_all
      from panic B(7) have "\<not> initInformers c" "B = []" "r \<noteq> None" by auto
      then show ?thesis
        using None A(1-6) Aok B(1-6) fin by (intro InformerPanic [of A]) (simp_all add: t0_def)
    next
      case (err x)
      with R2 p2 have fin: "res = Returned (Some (Wrap x ''could not init k8s informers''))"
        "c' = c3" "t' = t3"
        by simp_all
      from err B(7) have x: "\<not> initInformers c"
        "x = New ''remoteconfig must be set'' \<and> r = None \<and> B = []
         \<or> (\<exists>y. x = Wrap y ''could not get informer for namespaces'' \<and>
               B = [CallGetInformerForKind (Some y)])
         \<or> (\<exists>y src. x = Wrap y ''could not set watcher for namespaces informer'' \<and>
               B = watchCalls (ctrl c) src (Some y))"
        by auto
      show ?thesis
        using None A(1-6) Aok B(1-6) fin x
        by (intro InformerFail [of x A B]) (simp_all add: t0_def)
    next
      case ok
      with B(7) have Bok:
        "\<not> initInformers c \<longrightarrow> r \<noteq> None \<and> (\<exists>src. B = watchCalls (ctrl c) src None)"
        by auto
      obtain err c4 t4 where run: "runReconcilerFuncs E ReconcilerFuncs r i (c3, t3) = (err, (c4, t4))"
        by (metis prod_cases3)
      with R2 p2 ok have fin: "res = Returned err" "c' = c4" "t' = t4"
        by simp_all
      from runReconcilerFuncs_frame [OF run] B(4,5,6)
      have fr: "remoteConfig c' = r" "initClient c'" "initInformers c'"
        using fin by simp_all
      from runReconcilerFuncs_cases [OF run] obtain S where S: "t4 = t3 @ S"
        "err = None \<and> S = map (stepOK r i) ReconcilerFuncs
         \<or> (\<exists>k e. k < length ReconcilerFuncs \<and> err = Some (Wrap e ''could not reconcile'') \<and>
               S = map (stepOK r i) (take k ReconcilerFuncs)
                     @ [CallStep (ReconcilerFuncs ! k) r i (Some e)])"
        by blast
      from S(2) have st: "\<forall>s \<in> set S. isStep s"
        by (auto simp add: stepOK_def)
      show ?thesis
        using None A(1-6) Aok B(1-6) Bok fin fr S st
        by (intro Pipeline [of err A B S]) (simp_all add: t0_def)
    qed
  qed
qed

text \<open>The three kinds of trace entries exclude each other.\<close>

lemma filter_other_kind:
  "\<forall>x \<in> set xs. P x \<Longrightarrow> (\<And>x. P x \<Longrightarrow> \<not> Q x) \<Longrightarrow> filter Q xs = []"
  by (induction xs) auto

lemma kinds_disjoint:
  "isClientInit x \<Longrightarrow> \<not> isInformerInit x" "isClientInit x \<Longrightarrow> \<not> isStep x"
  "isInformerInit x \<Longrightarrow> \<not> isClientInit x" "isInformerInit x \<Longrightarrow> \<not> isStep x"
  "isStep x \<Longrightarrow> \<not> isClientInit x" "isStep x \<Longrightarrow> \<not> isInformerInit x"
  by (cases x; simp)+

lemma filter_same_kind: "\<forall>x \<in> set xs. P x \<Longrightarrow> filter P xs = xs"
  by (induction xs) auto

lemma clientInit_no_step:
  "\<forall>a \<in> set A. isClientInit a \<Longrightarrow>
     filter isStep A = [] \<and> (\<forall>f r i e. CallStep f r i e \<notin> set A)"
  by (induction A) (auto dest: kinds_disjoint(2))

lemma informerInit_no_step:
  "\<forall>a \<in> set A. isInformerInit a \<Longrightarrow>
     filter isStep A = [] \<and> (\<forall>f r i e. CallStep f r i e \<notin> set A)"
  by (induction A) (auto dest: kinds_disjoint(4))

subsection \<open>Shutdown\<close>

text \<open>
  Claim C9, as stated, fails: on the Cluster that \<^verbatim>\<open>NewCluster\<close> builds, the first
  \<^verbatim>\<open>Shutdown\<close> returns and the second one panics, because it closes the channel that the
  first one closed.
\<close>

theorem Shutdown_twice_panics:
  "fst (Shutdown (cluster0, [])) = Returned () \<and>
   fst (Shutdown (snd (Shutdown (cluster0, [])))) = Panic"
  by (simp add: Shutdown_def cluster0_def)

text \<open>
  Claim C9, amended: \<^verbatim>\<open>Shutdown\<close> never blocks, makes no call to a collaborator and
  always leaves the stop channel closed (signalled); it returns normally exactly when the
  channel was still open, and panics when the channel was already closed, as it is after
  a previous \<^verbatim>\<open>Shutdown\<close>.
\<close>

theorem Shutdown_closes_once:
  "Shutdown (c, t) =
     (if stopper c = Open then Returned () else Panic, (c\<lparr>stopper := Closed\<rparr>, t))"
  by (cases "stopper c") (simp_all add: Shutdown_def)

theorem Shutdown_closes_once_witness:
  "Shutdown (cluster0, []) = (Returned (), (cluster0\<lparr>stopper := Closed\<rparr>, [])) \<and>
   Shutdown (cluster0\<lparr>stopper := Closed\<rparr>, []) = (Panic, (cluster0\<lparr>stopper := Closed\<rparr>, []))"
  using Shutdown_closes_once [of cluster0 "[]"]
    Shutdown_closes_once [of "cluster0\<lparr>stopper := Closed\<rparr>" "[]"]
  by (simp add: cluster0_def)

subsection \<open>Removal of the remote components\<close>

text \<open>
  Claim C8, as stated, fails: called on the Cluster that \<^verbatim>\<open>NewCluster\<close> builds, before
  any \<^verbatim>\<open>Reconcile\<close> and with no client, \<^verbatim>\<open>RemoveRemoteIstioComponents\<close> returns nil.
\<close>

theorem Remove_before_Reconcile_succeeds:
  "RemoveRemoteIstioComponents healthy (cluster0, []) = (Returned None, (cluster0, []))"
  by (simp add: RemoveRemoteIstioComponents_def cluster0_def)

text \<open>
  Claim C8, amended: when no components are recorded as installed (\<^verbatim>\<open>istioConfig\<close> is
  nil, as it is before any \<^verbatim>\<open>Reconcile\<close>), \<^verbatim>\<open>RemoveRemoteIstioComponents\<close> returns nil
  in every environment, makes no call to a collaborator and leaves the Cluster as it was,
  whether or not a client has been built.
\<close>

theorem Remove_nothing_installed:
  "istioConfig c = None \<Longrightarrow> RemoveRemoteIstioComponents E (c, t) = (Returned None, (c, t))"
  by (simp add: RemoveRemoteIstioComponents_def)

theorem Remove_nothing_installed_witness:
  "istioConfig cluster0 = None \<and>
   RemoveRemoteIstioComponents managerFailsOnce (cluster0, []) = (Returned None, (cluster0, []))"
proof -
  have h: "istioConfig cluster0 = None" by (simp add: cluster0_def)
  show ?thesis using h Remove_nothing_installed [OF h, of managerFailsOnce "[]"] by simp
qed

text \<open>
  Claim C2: with components recorded as installed and a client built, the Istio resource
  is deleted first and the mesh gateway resource second, whatever the first call
  answered; the operation returns an error exactly when the second call answered
  not-found, and that error is the wrapped answer. So a not-found answer for the Istio
  resource is success when the gateway is deleted, and a not-found answer for the gateway
  is a returned error.
\<close>

theorem Remove_asymmetry:
  assumes "istioConfig c = Some ic" and "ctrlRuntimeClient c = Some cl"
    and "env_Delete E t cl istiocrd = err1"
    and "env_Delete E (t @ [CallDelete istiocrd err1]) cl meshgatewaycrd = err2"
  shows "RemoveRemoteIstioComponents E (c, t) =
           (Returned (if k8serrors_IsNotFound err2
                      then emperror_Wrap err2
                             ''could not remove mesh gateway CRD from remote cluster''
                      else None),
            (c, t @ [CallDelete istiocrd err1, CallDelete meshgatewaycrd err2]))
         \<and> (k8serrors_IsNotFound err1 \<and> err2 = None \<longrightarrow>
              fst (RemoveRemoteIstioComponents E (c, t)) = Returned None)
         \<and> (k8serrors_IsNotFound err2 \<longrightarrow>
              (\<exists>e. err2 = Some e \<and> fst (RemoveRemoteIstioComponents E (c, t)) =
                 Returned (Some (Wrap e
                   ''could not remove mesh gateway CRD from remote cluster''))))"
  using assms
  by (cases err2) (auto simp add: RemoveRemoteIstioComponents_def Let_def)

theorem Remove_asymmetry_witness:
  "RemoveRemoteIstioComponents (deleteAnswers (Some notFound) None) (cluster1, []) =
     (Returned None,
      (cluster1, [CallDelete istiocrd (Some notFound), CallDelete meshgatewaycrd None]))
   \<and> RemoveRemoteIstioComponents (deleteAnswers None (Some notFound)) (cluster1, []) =
     (Returned (Some (Wrap notFound ''could not remove mesh gateway CRD from remote cluster'')),
      (cluster1, [CallDelete istiocrd None, CallDelete meshgatewaycrd (Some notFound)]))"
  using Remove_asymmetry [of cluster1 istio0 "Client ''remote''"
      "deleteAnswers (Some notFound) None" "[]" "Some notFound" None]
    Remove_asymmetry [of cluster1 istio0 "Client ''remote''"
      "deleteAnswers None (Some notFound)" "[]" None "Some notFound"]
  by (simp add: cluster1_def deleteAnswers_def healthy_def notFound_def)

text \<open>
  Claim C3, evaluated on the code: on the Cluster left by a successful \<^verbatim>\<open>Reconcile\<close>, a
  permission error on deleting the Istio resource is not returned
  (\<^verbatim>\<open>RemoveRemoteIstioComponents\<close> goes on to the gateway and returns nil), and neither is
  a permission error on deleting the mesh gateway resource.
\<close>

theorem Remove_swallows_deletion_failure:
  "fst (RemoveRemoteIstioComponents (deleteAnswers (Some forbidden) None) (cluster1, []))
     = Returned None \<and>
   fst (RemoveRemoteIstioComponents (deleteAnswers None (Some forbidden)) (cluster1, []))
     = Returned None \<and>
   snd (snd (RemoveRemoteIstioComponents (deleteAnswers (Some forbidden) None) (cluster1, [])))
     = [CallDelete istiocrd (Some forbidden), CallDelete meshgatewaycrd None]"
  by (simp add: RemoveRemoteIstioComponents_def cluster1_def deleteAnswers_def healthy_def
      forbidden_def)

subsection \<open>The namespace watch\<close>



subsection \<open>Reconcile: the recorded configuration\<close>

text \<open>
  Claim C7: when the pre-reconciliation step \<^verbatim>\<open>reconcileCRDs\<close> answers nil, the Cluster
  holds \<^verbatim>\<open>remoteCfg\<close> as its remote configuration when \<^verbatim>\<open>Reconcile\<close> ends, whatever
  happens afterwards (an initialization or a pipeline step that fails, a panic);
  when the pre-reconciliation step fails, the recorded value is unchanged;
  \<^verbatim>\<open>GetRemoteConfig\<close> reads that value, which is nil on the Cluster that \<^verbatim>\<open>NewCluster\<close>
  builds.
\<close>

theorem Reconcile_records_remoteConfig:
  assumes R: "Reconcile E r i (c, t) = (res, (c', t'))"
  shows "(fst (env_reconcileCRDs E t c r i) = None \<longrightarrow> GetRemoteConfig c' = r)
       \<and> (fst (env_reconcileCRDs E t c r i) \<noteq> None \<longrightarrow> GetRemoteConfig c' = GetRemoteConfig c)
       \<and> (\<forall>nm ct cfg c0. NewCluster E nm ct cfg = Inr c0 \<longrightarrow> GetRemoteConfig c0 = None)"
proof -
  obtain err0 ic where pre: "env_reconcileCRDs E t c r i = (err0, ic)"
    by (cases "env_reconcileCRDs E t c r i")
  have "(err0 = None \<longrightarrow> remoteConfig c' = r) \<and> (err0 \<noteq> None \<longrightarrow> remoteConfig c' = remoteConfig c)"
    using R pre by (cases rule: Reconcile_cases) simp_all
  moreover have "\<forall>nm ct cfg c0. NewCluster E nm ct cfg = Inr c0 \<longrightarrow> remoteConfig c0 = None"
    by (auto simp add: NewCluster_def split: sum.splits)
  ultimately show ?thesis by (simp add: GetRemoteConfig_def pre)
qed

theorem Reconcile_records_remoteConfig_witness:
  "fst (Reconcile (stepFails reconcileSignCert) (Some remote0) (Some istio0) (cluster0, [])) =
     Returned (Some (Wrap refused ''could not reconcile''))
   \<and> GetRemoteConfig (fst (snd (Reconcile (stepFails reconcileSignCert) (Some remote0)
        (Some istio0) (cluster0, [])))) = Some remote0
   \<and> GetRemoteConfig (fst (snd (Reconcile crdsFail (Some remote0) (Some istio0)
        (cluster0, [])))) = None
   \<and> GetRemoteConfig cluster0 = None"
  using Reconcile_records_remoteConfig [of "stepFails reconcileSignCert" "Some remote0"
      "Some istio0" cluster0 "[]"
      "fst (Reconcile (stepFails reconcileSignCert) (Some remote0) (Some istio0) (cluster0, []))"
      "fst (snd (Reconcile (stepFails reconcileSignCert) (Some remote0) (Some istio0)
         (cluster0, [])))"
      "snd (snd (Reconcile (stepFails reconcileSignCert) (Some remote0) (Some istio0)
         (cluster0, [])))"]
    Reconcile_records_remoteConfig [of crdsFail "Some remote0" "Some istio0" cluster0 "[]"
      "fst (Reconcile crdsFail (Some remote0) (Some istio0) (cluster0, []))"
      "fst (snd (Reconcile crdsFail (Some remote0) (Some istio0) (cluster0, [])))"
      "snd (snd (Reconcile crdsFail (Some remote0) (Some istio0) (cluster0, [])))"]
  by (simp add: run_defs input_defs GetRemoteConfig_def)

subsection \<open>Reconcile: the nil check of the watch initialization\<close>

text \<open>
  Claim C10: \<^verbatim>\<open>initK8sInformers\<close> answers ``remoteconfig must be set'' exactly when the
  recorded remote configuration is nil, and a \<^verbatim>\<open>Reconcile\<close> called with a non-nil
  \<^verbatim>\<open>remoteCfg\<close> never returns that error: the configuration is recorded before the
  guarded initialization runs.
\<close>

theorem remoteconfig_branch_unreachable:
  "fst (Reconcile E (Some rc) i (c, t)) \<noteq>
     Returned (Some (Wrap (New ''remoteconfig must be set'') ''could not init k8s informers''))
   \<and> ((fst (initK8sInformers E (c, t)) = Returned (Some (New ''remoteconfig must be set'')))
        = (remoteConfig c = None))"
proof
  obtain res c' t' where R: "Reconcile E (Some rc) i (c, t) = (res, (c', t'))"
    by (metis prod_cases3)
  obtain err0 ic where pre: "env_reconcileCRDs E t c (Some rc) i = (err0, ic)"
    by (cases "env_reconcileCRDs E t c (Some rc) i")
  have "res \<noteq> Returned (Some (Wrap (New ''remoteconfig must be set'')
                  ''could not init k8s informers''))"
    using R pre by (cases rule: Reconcile_cases) auto
  with R show "fst (Reconcile E (Some rc) i (c, t)) \<noteq>
     Returned (Some (Wrap (New ''remoteconfig must be set'') ''could not init k8s informers''))"
    by simp
next
  show "(fst (initK8sInformers E (c, t)) = Returned (Some (New ''remoteconfig must be set'')))
        = (remoteConfig c = None)"
    by (auto simp add: initK8sInformers_def Let_def split: option.splits sum.splits)
qed

theorem remoteconfig_branch_unreachable_witness:
  "fst (Reconcile healthy (Some remote0) (Some istio0) (cluster0, [])) = Returned None
   \<and> fst (Reconcile healthy None (Some istio0) (cluster0, [])) =
       Returned (Some (Wrap (New ''remoteconfig must be set'') ''could not init k8s informers''))"
  using remoteconfig_branch_unreachable [of healthy remote0 "Some istio0" cluster0 "[]"]
  by (simp add: run_defs input_defs)

subsection \<open>Reconcile: the pipeline\<close>

text \<open>
  Claim C4: a \<^verbatim>\<open>Reconcile\<close> that returns nil has called exactly the six steps, each
  once, in the order configuration, signing certificate, CA root to namespaces, enabled
  services, service endpoints, components, all with the two configurations of the call.
  When a step answers an error, it is step number k of the list for some k, the steps
  called by this \<^verbatim>\<open>Reconcile\<close> are the k steps before it (each answered nil) followed by
  the failing one, no later step is called, and \<^verbatim>\<open>Reconcile\<close> returns that error wrapped.
\<close>

theorem pipeline_order:
  assumes R: "Reconcile E r i (c, t) = (res, (c', t'))"
  shows "(res = Returned None \<longrightarrow>
            filter isStep (added t t') =
              map (stepOK r i)
                [reconcileConfig, reconcileSignCert, reconcileCARootToNamespaces,
                 reconcileEnabledServices, ReconcileEnabledServiceEndpoints,
                 reconcileComponents])
       \<and> (\<forall>f r' i' e. CallStep f r' i' (Some e) \<in> set (added t t') \<longrightarrow>
            (\<exists>k. k < length ReconcilerFuncs \<and> f = ReconcilerFuncs ! k \<and> r' = r \<and> i' = i \<and>
               filter isStep (added t t') =
                 map (stepOK r i) (take k ReconcilerFuncs) @ [CallStep f r i (Some e)] \<and>
               res = Returned (Some (Wrap e ''could not reconcile''))))"
proof -
  obtain err0 ic where pre: "env_reconcileCRDs E t c r i = (err0, ic)"
    by (cases "env_reconcileCRDs E t c r i")
  from R pre show ?thesis
  proof (cases rule: Reconcile_cases)
    case (PreFail e)
    then show ?thesis by simp
  next
    case (ClientFail A x)
    from clientInit_no_step [OF ClientFail(6)] ClientFail(3,4) show ?thesis by simp
  next
    case (InformerPanic A)
    from clientInit_no_step [OF InformerPanic(5)] InformerPanic(3,4) show ?thesis by simp
  next
    case (InformerFail A B x)
    from clientInit_no_step [OF InformerFail(5)] informerInit_no_step [OF InformerFail(6)]
      InformerFail(3,4)
    show ?thesis by simp
  next
    case (Pipeline A B S err)
    have fS: "filter isStep S = S"
      using Pipeline(11) by (rule filter_same_kind)
    have steps: "filter isStep (added t t') = S"
      using clientInit_no_step [OF Pipeline(4)] informerInit_no_step [OF Pipeline(5)]
        Pipeline(3) fS
      by simp
    have mem: "CallStep f r' i' (Some e) \<in> set (added t t') \<longleftrightarrow> CallStep f r' i' (Some e) \<in> set S"
      for f r' i' e
      using clientInit_no_step [OF Pipeline(4)] informerInit_no_step [OF Pipeline(5)]
        Pipeline(3)
      by simp
    from Pipeline(12) show ?thesis
    proof
      assume ok: "err = None \<and> S = map (stepOK r i) ReconcilerFuncs"
      then have none: "CallStep f r' i' (Some e) \<notin> set S" for f r' i' e
        by (auto simp add: stepOK_def)
      have "filter isStep (added t t') = map (stepOK r i) ReconcilerFuncs"
        using steps ok by simp
      moreover have "\<forall>f r' i' e. CallStep f r' i' (Some e) \<notin> set (added t t')"
        using mem none by simp
      ultimately show ?thesis
        by (simp add: ReconcilerFuncs_def)
    next
      assume "\<exists>k e. k < length ReconcilerFuncs \<and> err = Some (Wrap e ''could not reconcile'') \<and>
             S = map (stepOK r i) (take k ReconcilerFuncs)
                   @ [CallStep (ReconcilerFuncs ! k) r i (Some e)]"
      then obtain k e where k: "k < length ReconcilerFuncs"
        "err = Some (Wrap e ''could not reconcile'')"
        "S = map (stepOK r i) (take k ReconcilerFuncs)
               @ [CallStep (ReconcilerFuncs ! k) r i (Some e)]"
        by blast
      have only: "CallStep f r' i' (Some e') \<in> set S \<longleftrightarrow>
                    f = ReconcilerFuncs ! k \<and> r' = r \<and> i' = i \<and> e' = e" for f r' i' e'
        unfolding k(3) by (auto simp add: stepOK_def)
      have res: "res = Returned (Some (Wrap e ''could not reconcile''))"
        using Pipeline(2) k(2) by simp
      have "res \<noteq> Returned None" using res by simp
      moreover have "\<forall>f r' i' e'. CallStep f r' i' (Some e') \<in> set (added t t') \<longrightarrow>
            (\<exists>k. k < length ReconcilerFuncs \<and> f = ReconcilerFuncs ! k \<and> r' = r \<and> i' = i \<and>
               filter isStep (added t t') =
                 map (stepOK r i) (take k ReconcilerFuncs) @ [CallStep f r i (Some e')] \<and>
               res = Returned (Some (Wrap e' ''could not reconcile'')))"
      proof (intro allI impI)
        fix f r' i' e'
        assume "CallStep f r' i' (Some e') \<in> set (added t t')"
        then have eq: "f = ReconcilerFuncs ! k" "r' = r" "i' = i" "e' = e"
          using mem only by simp_all
        show "\<exists>k. k < length ReconcilerFuncs \<and> f = ReconcilerFuncs ! k \<and> r' = r \<and> i' = i \<and>
               filter isStep (added t t') =
                 map (stepOK r i) (take k ReconcilerFuncs) @ [CallStep f r i (Some e')] \<and>
               res = Returned (Some (Wrap e' ''could not reconcile''))"
          using k(1) eq steps k(3) res by (intro exI [of _ k]) simp
      qed
      ultimately show ?thesis by blast
    qed
  qed
qed

theorem pipeline_order_witness:
  "fst (Reconcile healthy (Some remote0) (Some istio0) (cluster0, [])) = Returned None
   \<and> filter isStep (added [] (snd (snd (Reconcile healthy (Some remote0) (Some istio0)
        (cluster0, []))))) =
       map (stepOK (Some remote0) (Some istio0))
         [reconcileConfig, reconcileSignCert, reconcileCARootToNamespaces,
          reconcileEnabledServices, ReconcileEnabledServiceEndpoints, reconcileComponents]
   \<and> fst (Reconcile (stepFails reconcileCARootToNamespaces) (Some remote0) (Some istio0)
        (cluster0, [])) = Returned (Some (Wrap refused ''could not reconcile''))
   \<and> filter isStep (added [] (snd (snd (Reconcile (stepFails reconcileCARootToNamespaces)
        (Some remote0) (Some istio0) (cluster0, []))))) =
       [CallStep reconcileConfig (Some remote0) (Some istio0) None,
        CallStep reconcileSignCert (Some remote0) (Some istio0) None,
        CallStep reconcileCARootToNamespaces (Some remote0) (Some istio0) (Some refused)]"
  using pipeline_order [of healthy "Some remote0" "Some istio0" cluster0 "[]"
      "fst (Reconcile healthy (Some remote0) (Some istio0) (cluster0, []))"
      "fst (snd (Reconcile healthy (Some remote0) (Some istio0) (cluster0, [])))"
      "snd (snd (Reconcile healthy (Some remote0) (Some istio0) (cluster0, [])))"]
    pipeline_order [of "stepFails reconcileCARootToNamespaces" "Some remote0" "Some istio0"
      cluster0 "[]"
      "fst (Reconcile (stepFails reconcileCARootToNamespaces) (Some remote0) (Some istio0)
         (cluster0, []))"
      "fst (snd (Reconcile (stepFails reconcileCARootToNamespaces) (Some remote0) (Some istio0)
         (cluster0, [])))"
      "snd (snd (Reconcile (stepFails reconcileCARootToNamespaces) (Some remote0) (Some istio0)
         (cluster0, [])))"]
  by (simp add: run_defs input_defs added_def stepOK_def)

subsection \<open>Reconcile: the context of a returned error\<close>

text \<open>
  Claim C5, as stated, fails: when the step \<^verbatim>\<open>reconcileSignCert\<close> fails and when the step
  \<^verbatim>\<open>reconcileComponents\<close> fails, with the same underlying error, \<^verbatim>\<open>Reconcile\<close> returns
  the same error, wrapped with ``could not reconcile''; nothing in it names the step.
\<close>

theorem step_errors_indistinguishable:
  "fst (Reconcile (stepFails reconcileSignCert) (Some remote0) (Some istio0) (cluster0, []))
     = Returned (Some (Wrap refused ''could not reconcile'')) \<and>
   fst (Reconcile (stepFails reconcileComponents) (Some remote0) (Some istio0) (cluster0, []))
     = Returned (Some (Wrap refused ''could not reconcile'')) \<and>
   last (snd (snd (Reconcile (stepFails reconcileSignCert) (Some remote0) (Some istio0)
     (cluster0, [])))) = CallStep reconcileSignCert (Some remote0) (Some istio0) (Some refused) \<and>
   last (snd (snd (Reconcile (stepFails reconcileComponents) (Some remote0) (Some istio0)
     (cluster0, [])))) = CallStep reconcileComponents (Some remote0) (Some istio0) (Some refused)"
  by (simp add: run_defs input_defs)

text \<open>
  Claim C5, amended: every error that \<^verbatim>\<open>Reconcile\<close> returns is the underlying error
  wrapped with a message that names the failing phase: ``could not init k8s clients''
  for the client initialization, ``could not init k8s informers'' for the watch
  initialization, ``could not reconcile'' for the pre-reconciliation step and for the
  pipeline; the failing call is the last entry of the trace. The wrapping does not
  identify which pipeline step failed: whichever step answered the error \<open>x\<close>, the
  returned error is \<open>x\<close> wrapped with ``could not reconcile''.
\<close>

theorem Reconcile_error_context:
  assumes R: "Reconcile E r i (c, t) = (Returned (Some e), (c', t'))"
  shows "((\<exists>x. e = Wrap x ''could not reconcile'' \<and>
            (last t' = CallReconcileCRDs r i (Some x) \<or> (\<exists>f. last t' = CallStep f r i (Some x))))
       \<or> (\<exists>x y. e = Wrap x ''could not init k8s clients'' \<and>
            (x = Wrap y ''could not create manager'' \<and> last t' = CallManagerNew (Some y)
             \<or> x = Wrap y ''could not get dynamic client'' \<and>
                 last t' = CallDynamicNewForConfig (Some y)))
       \<or> (\<exists>x. e = Wrap x ''could not init k8s informers'' \<and>
            (x = New ''remoteconfig must be set''
             \<or> (\<exists>y. x = Wrap y ''could not get informer for namespaces'' \<and>
                   last t' = CallGetInformerForKind (Some y))
             \<or> (\<exists>y ct src h p. x = Wrap y ''could not set watcher for namespaces informer'' \<and>
                   last t' = CallWatch ct src h p (Some y)))))
       \<and> (\<forall>f x. CallStep f r i (Some x) \<in> set (added t t') \<longrightarrow>
             e = Wrap x ''could not reconcile'')"
proof -
  obtain err0 ic where pre: "env_reconcileCRDs E t c r i = (err0, ic)"
    by (cases "env_reconcileCRDs E t c r i")
  from R pre show ?thesis
  proof (cases rule: Reconcile_cases)
    case (PreFail x)
    then show ?thesis by simp
  next
    case (ClientFail A x)
    from ClientFail(4,5) have "last t' = last A" by simp
    with ClientFail(3,4,10) clientInit_no_step [OF ClientFail(6)] show ?thesis by auto
  next
    case (InformerPanic A)
    then show ?thesis by simp
  next
    case (InformerFail A B x)
    from InformerFail(4) have "B \<noteq> [] \<Longrightarrow> last t' = last B" by simp
    with InformerFail(3,4,11) clientInit_no_step [OF InformerFail(5)]
      informerInit_no_step [OF InformerFail(6)]
    show ?thesis by (auto simp add: watchCalls_def)
  next
    case (Pipeline A B S err)
    from Pipeline(2,12) obtain k x where k: "e = Wrap x ''could not reconcile''"
      "S = map (stepOK r i) (take k ReconcilerFuncs) @ [CallStep (ReconcilerFuncs ! k) r i (Some x)]"
      by auto
    from Pipeline(3) k(2) have l: "last t' = CallStep (ReconcilerFuncs ! k) r i (Some x)"
      by simp
    have "CallStep f r i (Some y) \<in> set (added t t') \<longrightarrow> y = x" for f y
      using Pipeline(3) clientInit_no_step [OF Pipeline(4)] informerInit_no_step [OF Pipeline(5)]
      unfolding k(2) by (auto simp add: stepOK_def)
    with k(1) l show ?thesis by blast
  qed
qed

theorem Reconcile_error_context_witness:
  "Reconcile (stepFails reconcileSignCert) (Some remote0) (Some istio0) (cluster0, []) =
     (Returned (Some (Wrap refused ''could not reconcile'')),
      snd (Reconcile (stepFails reconcileSignCert) (Some remote0) (Some istio0) (cluster0, [])))
   \<and> last (snd (snd (Reconcile (stepFails reconcileSignCert) (Some remote0) (Some istio0)
        (cluster0, [])))) = CallStep reconcileSignCert (Some remote0) (Some istio0) (Some refused)
   \<and> CallStep reconcileSignCert (Some remote0) (Some istio0) (Some refused)
        \<in> set (added [] (snd (snd (Reconcile (stepFails reconcileSignCert) (Some remote0)
             (Some istio0) (cluster0, [])))))
   \<and> fst (Reconcile managerFailsOnce (Some remote0) (Some istio0) (cluster0, [])) =
       Returned (Some (Wrap (Wrap refused ''could not create manager'')
         ''could not init k8s clients''))
   \<and> fst (Reconcile watchFails (Some remote0) (Some istio0) (cluster0, [])) =
       Returned (Some (Wrap (Wrap refused ''could not set watcher for namespaces informer'')
         ''could not init k8s informers''))"
  using Reconcile_error_context [of "stepFails reconcileSignCert" "Some remote0" "Some istio0"
      cluster0 "[]" "Wrap refused ''could not reconcile''"
      "fst (snd (Reconcile (stepFails reconcileSignCert) (Some remote0) (Some istio0)
         (cluster0, [])))"
      "snd (snd (Reconcile (stepFails reconcileSignCert) (Some remote0) (Some istio0)
         (cluster0, [])))"]
  by (simp add: run_defs input_defs watchFails_def added_def)

subsection \<open>Reconcile: the once-guards of the two initializations\<close>

text \<open>Four runs of \<^verbatim>\<open>Reconcile\<close> on concrete inputs.\<close>

lemma first_attempt:
  "Reconcile managerFailsOnce (Some remote0) (Some istio0) (cluster0, []) =
     (Returned (Some (Wrap (Wrap refused ''could not create manager'')
        ''could not init k8s clients'')),
      (cluster0\<lparr>remoteConfig := Some remote0, initClient := True\<rparr>,
       [CallReconcileCRDs (Some remote0) (Some istio0) None, CallManagerNew (Some refused)]))"
  by (simp add: run_defs input_defs)

lemma run_watchFails:
  "Reconcile watchFails (Some remote0) (Some istio0) (cluster0, []) =
     (Returned (Some (Wrap (Wrap refused ''could not set watcher for namespaces informer'')
        ''could not init k8s informers'')),
      (cluster1\<lparr>istioConfig := None\<rparr>,
       [CallReconcileCRDs (Some remote0) (Some istio0) None] @ clientCalls None @
       watchCalls (Controller ''remoteistio-controller'') (Informer ''Namespace'')
         (Some refused)))"
  by (simp add: run_defs input_defs watchFails_def clientCalls_def watchCalls_def)

lemma run_healthy:
  "Reconcile healthy (Some remote0) (Some istio0) (cluster0, []) =
     (Returned None,
      (cluster1,
       [CallReconcileCRDs (Some remote0) (Some istio0) None] @ clientCalls None @
       watchCalls (Controller ''remoteistio-controller'') (Informer ''Namespace'') None @
       map (stepOK (Some remote0) (Some istio0)) ReconcilerFuncs))"
  by (simp add: run_defs input_defs clientCalls_def watchCalls_def stepOK_def)

lemma rerun_healthy:
  "Reconcile healthy (Some remote0) (Some istio0) (cluster1, []) =
     (Returned None,
      (cluster1,
       [CallReconcileCRDs (Some remote0) (Some istio0) None] @
       map (stepOK (Some remote0) (Some istio0)) ReconcilerFuncs))"
  by (simp add: run_defs input_defs stepOK_def)

text \<open>
  Claim C1, as stated, fails: when \<^verbatim>\<open>manager.New\<close> fails in the first \<^verbatim>\<open>Reconcile\<close> of
  a new Cluster, that call returns the wrapped error and the guard \<open>initClient\<close> is set
  all the same; the next \<^verbatim>\<open>Reconcile\<close>, in an environment where \<^verbatim>\<open>manager.New\<close> would
  now succeed, does not call it again: it goes on to the watch initialization without a
  manager and panics there.
\<close>

theorem failed_init_is_not_retried:
  "fst (Reconcile managerFailsOnce (Some remote0) (Some istio0) (cluster0, [])) =
     Returned (Some (Wrap (Wrap refused ''could not create manager'')
       ''could not init k8s clients'')) \<and>
   initClient (fst (snd (Reconcile managerFailsOnce (Some remote0) (Some istio0) (cluster0, []))))
   \<and> Reconcile managerFailsOnce (Some remote0) (Some istio0)
       (snd (Reconcile managerFailsOnce (Some remote0) (Some istio0) (cluster0, []))) =
     (Panic,
      (cluster0\<lparr>remoteConfig := Some remote0, initClient := True, initInformers := True\<rparr>,
       [CallReconcileCRDs (Some remote0) (Some istio0) None, CallManagerNew (Some refused),
        CallReconcileCRDs (Some remote0) (Some istio0) None]))"
  by (simp add: first_attempt) (simp add: run_defs input_defs)

text \<open>Entries of one kind are not entries of another.\<close>

lemma client_only:
  "\<forall>a \<in> set A. isClientInit a \<Longrightarrow>
     filter isClientInit A = A \<and> filter isInformerInit A = [] \<and>
     (\<forall>e. CallGetInformerForKind e \<notin> set A) \<and> (\<forall>ct src h p e. CallWatch ct src h p e \<notin> set A)"
  by (induction A) (auto dest: kinds_disjoint(1))

lemma informer_only:
  "\<forall>b \<in> set B. isInformerInit b \<Longrightarrow>
     filter isInformerInit B = B \<and> filter isClientInit B = [] \<and>
     (\<forall>e. CallManagerNew e \<notin> set B) \<and> (\<forall>e. CallDynamicNewForConfig e \<notin> set B)"
  by (induction B) (auto dest: kinds_disjoint(3))

lemma step_only:
  "\<forall>s \<in> set S. isStep s \<Longrightarrow>
     filter isClientInit S = [] \<and> filter isInformerInit S = [] \<and>
     (\<forall>e. CallManagerNew e \<notin> set S) \<and> (\<forall>e. CallDynamicNewForConfig e \<notin> set S) \<and>
     (\<forall>e. CallGetInformerForKind e \<notin> set S) \<and> (\<forall>ct src h p e. CallWatch ct src h p e \<notin> set S)"
  by (induction S) (auto dest: kinds_disjoint(5,6))

text \<open>The client guard is set by every run that gets past the pre-reconciliation step, and is never cleared.\<close>

lemma guard_client_flag:
  assumes R: "Reconcile E r i (c, t) = (res, (c', t'))"
  shows "initClient c' = (initClient c \<or> fst (env_reconcileCRDs E t c r i) = None)"
proof -
  obtain err0 ic where pre: "env_reconcileCRDs E t c r i = (err0, ic)"
    by (cases "env_reconcileCRDs E t c r i")
  from R pre show ?thesis
  proof (cases rule: Reconcile_cases)
    case (PreFail e)
    then show ?thesis by (simp add: pre)
  next
    case (ClientFail A x)
    from ClientFail(1-9,11) client_only [OF ClientFail(6)] show ?thesis
      by (auto simp add: pre clientCalls_def)
  next
    case (InformerPanic A)
    from InformerPanic client_only [OF InformerPanic(5)] show ?thesis
      by (auto simp add: pre clientCalls_def)
  next
    case (InformerFail A B x)
    from InformerFail client_only [OF InformerFail(5)] informer_only [OF InformerFail(6)]
    show ?thesis
      by (auto simp add: pre clientCalls_def watchCalls_def)
  next
    case (Pipeline A B S err)
    from Pipeline(12) have "(\<forall>x. err \<noteq> Some (Wrap x ''could not init k8s clients'')) \<and>
        (\<forall>x. err \<noteq> Some (Wrap x ''could not init k8s informers''))"
      by auto
    with Pipeline(1-10,13,14) client_only [OF Pipeline(4)] informer_only [OF Pipeline(5)]
      step_only [OF Pipeline(11)]
    show ?thesis
      by (auto simp add: pre clientCalls_def watchCalls_def)
  qed
qed

text \<open>The client initialization is run exactly when its guard is unset and the pre-reconciliation step succeeded.\<close>

lemma guard_client_attempt:
  assumes R: "Reconcile E r i (c, t) = (res, (c', t'))"
  shows "(filter isClientInit (added t t') \<noteq> []) =
           (\<not> initClient c \<and> fst (env_reconcileCRDs E t c r i) = None)"
proof -
  obtain err0 ic where pre: "env_reconcileCRDs E t c r i = (err0, ic)"
    by (cases "env_reconcileCRDs E t c r i")
  from R pre show ?thesis
  proof (cases rule: Reconcile_cases)
    case (PreFail e)
    then show ?thesis by (simp add: pre)
  next
    case (ClientFail A x)
    from ClientFail(1-9,11) client_only [OF ClientFail(6)] show ?thesis
      by (auto simp add: pre clientCalls_def)
  next
    case (InformerPanic A)
    from InformerPanic client_only [OF InformerPanic(5)] show ?thesis
      by (auto simp add: pre clientCalls_def)
  next
    case (InformerFail A B x)
    from InformerFail client_only [OF InformerFail(5)] informer_only [OF InformerFail(6)]
    show ?thesis
      by (auto simp add: pre clientCalls_def watchCalls_def)
  next
    case (Pipeline A B S err)
    from Pipeline(12) have "(\<forall>x. err \<noteq> Some (Wrap x ''could not init k8s clients'')) \<and>
        (\<forall>x. err \<noteq> Some (Wrap x ''could not init k8s informers''))"
      by auto
    with Pipeline(1-10,13,14) client_only [OF Pipeline(4)] informer_only [OF Pipeline(5)]
      step_only [OF Pipeline(11)]
    show ?thesis
      by (auto simp add: pre clientCalls_def watchCalls_def)
  qed
qed

text \<open>A failed client initialization is returned wrapped, and its guard is set all the same.\<close>

lemma guard_client_failure:
  assumes R: "Reconcile E r i (c, t) = (res, (c', t'))"
  shows "(\<forall>y. CallManagerNew (Some y) \<in> set (added t t') \<longrightarrow>
            res = Returned (Some (Wrap (Wrap y ''could not create manager'')
                    ''could not init k8s clients'')) \<and>
            initClient c' \<and> initInformers c' = initInformers c)
       \<and> (\<forall>y. CallDynamicNewForConfig (Some y) \<in> set (added t t') \<longrightarrow>
            res = Returned (Some (Wrap (Wrap y ''could not get dynamic client'')
                    ''could not init k8s clients'')) \<and>
            initClient c' \<and> initInformers c' = initInformers c)"
proof -
  obtain err0 ic where pre: "env_reconcileCRDs E t c r i = (err0, ic)"
    by (cases "env_reconcileCRDs E t c r i")
  from R pre show ?thesis
  proof (cases rule: Reconcile_cases)
    case (PreFail e)
    then show ?thesis by (simp add: pre)
  next
    case (ClientFail A x)
    from ClientFail(1-9,11) client_only [OF ClientFail(6)] show ?thesis
      by (auto simp add: pre clientCalls_def)
  next
    case (InformerPanic A)
    from InformerPanic client_only [OF InformerPanic(5)] show ?thesis
      by (auto simp add: pre clientCalls_def)
  next
    case (InformerFail A B x)
    from InformerFail client_only [OF InformerFail(5)] informer_only [OF InformerFail(6)]
    show ?thesis
      by (auto simp add: pre clientCalls_def watchCalls_def)
  next
    case (Pipeline A B S err)
    from Pipeline(12) have "(\<forall>x. err \<noteq> Some (Wrap x ''could not init k8s clients'')) \<and>
        (\<forall>x. err \<noteq> Some (Wrap x ''could not init k8s informers''))"
      by auto
    with Pipeline(1-10,13,14) client_only [OF Pipeline(4)] informer_only [OF Pipeline(5)]
      step_only [OF Pipeline(11)]
    show ?thesis
      by (auto simp add: pre clientCalls_def watchCalls_def)
  qed
qed

text \<open>The watch guard is set exactly by the runs that reach the watch initialization, whatever its outcome, and is never cleared.\<close>

lemma guard_informers_flag:
  assumes R: "Reconcile E r i (c, t) = (res, (c', t'))"
  shows "initInformers c' =
           (initInformers c \<or>
            fst (env_reconcileCRDs E t c r i) = None \<and>
            (initClient c \<or> CallDynamicNewForConfig None \<in> set (added t t')))"
proof -
  obtain err0 ic where pre: "env_reconcileCRDs E t c r i = (err0, ic)"
    by (cases "env_reconcileCRDs E t c r i")
  from R pre show ?thesis
  proof (cases rule: Reconcile_cases)
    case (PreFail e)
    then show ?thesis by (simp add: pre)
  next
    case (ClientFail A x)
    from ClientFail(1-9,11) client_only [OF ClientFail(6)] show ?thesis
      by (auto simp add: pre clientCalls_def)
  next
    case (InformerPanic A)
    from InformerPanic client_only [OF InformerPanic(5)] show ?thesis
      by (auto simp add: pre clientCalls_def)
  next
    case (InformerFail A B x)
    from InformerFail client_only [OF InformerFail(5)] informer_only [OF InformerFail(6)]
    show ?thesis
      by (auto simp add: pre clientCalls_def watchCalls_def)
  next
    case (Pipeline A B S err)
    from Pipeline(12) have "(\<forall>x. err \<noteq> Some (Wrap x ''could not init k8s clients'')) \<and>
        (\<forall>x. err \<noteq> Some (Wrap x ''could not init k8s informers''))"
      by auto
    with Pipeline(1-10,13,14) client_only [OF Pipeline(4)] informer_only [OF Pipeline(5)]
      step_only [OF Pipeline(11)]
    show ?thesis
      by (auto simp add: pre clientCalls_def watchCalls_def)
  qed
qed

text \<open>The watch initialization makes calls only when its guard is unset, and a watch that was installed sets the guard.\<close>

lemma guard_informers_attempt:
  assumes R: "Reconcile E r i (c, t) = (res, (c', t'))"
  shows "(filter isInformerInit (added t t') \<noteq> [] \<longrightarrow>
            \<not> initInformers c \<and> initInformers c')
       \<and> (\<forall>ct src h p. CallWatch ct src h p None \<in> set (added t t') \<longrightarrow>
            \<not> initInformers c \<and> initInformers c')"
proof -
  obtain err0 ic where pre: "env_reconcileCRDs E t c r i = (err0, ic)"
    by (cases "env_reconcileCRDs E t c r i")
  from R pre show ?thesis
  proof (cases rule: Reconcile_cases)
    case (PreFail e)
    then show ?thesis by (simp add: pre)
  next
    case (ClientFail A x)
    from ClientFail(1-9,11) client_only [OF ClientFail(6)] show ?thesis
      by (auto simp add: pre clientCalls_def)
  next
    case (InformerPanic A)
    from InformerPanic client_only [OF InformerPanic(5)] show ?thesis
      by (auto simp add: pre clientCalls_def)
  next
    case (InformerFail A B x)
    from InformerFail client_only [OF InformerFail(5)] informer_only [OF InformerFail(6)]
    show ?thesis
      by (auto simp add: pre clientCalls_def watchCalls_def)
  next
    case (Pipeline A B S err)
    from Pipeline(12) have "(\<forall>x. err \<noteq> Some (Wrap x ''could not init k8s clients'')) \<and>
        (\<forall>x. err \<noteq> Some (Wrap x ''could not init k8s informers''))"
      by auto
    with Pipeline(1-10,13,14) client_only [OF Pipeline(4)] informer_only [OF Pipeline(5)]
      step_only [OF Pipeline(11)]
    show ?thesis
      by (auto simp add: pre clientCalls_def watchCalls_def)
  qed
qed

text \<open>A failed watch initialization is returned wrapped, and its guard is set all the same.\<close>

lemma guard_informers_failure:
  assumes R: "Reconcile E r i (c, t) = (res, (c', t'))"
  shows "(\<forall>y. CallGetInformerForKind (Some y) \<in> set (added t t') \<longrightarrow>
            res = Returned (Some (Wrap (Wrap y ''could not get informer for namespaces'')
                    ''could not init k8s informers'')) \<and> initInformers c')
       \<and> (\<forall>ct src h p y. CallWatch ct src h p (Some y) \<in> set (added t t') \<longrightarrow>
            res = Returned (Some (Wrap (Wrap y ''could not set watcher for namespaces informer'')
                    ''could not init k8s informers'')) \<and> initInformers c')"
proof -
  obtain err0 ic where pre: "env_reconcileCRDs E t c r i = (err0, ic)"
    by (cases "env_reconcileCRDs E t c r i")
  from R pre show ?thesis
  proof (cases rule: Reconcile_cases)
    case (PreFail e)
    then show ?thesis by (simp add: pre)
  next
    case (ClientFail A x)
    from ClientFail(1-9,11) client_only [OF ClientFail(6)] show ?thesis
      by (auto simp add: pre clientCalls_def)
  next
    case (InformerPanic A)
    from InformerPanic client_only [OF InformerPanic(5)] show ?thesis
      by (auto simp add: pre clientCalls_def)
  next
    case (InformerFail A B x)
    from InformerFail client_only [OF InformerFail(5)] informer_only [OF InformerFail(6)]
    show ?thesis
      by (auto simp add: pre clientCalls_def watchCalls_def)
  next
    case (Pipeline A B S err)
    from Pipeline(12) have "(\<forall>x. err \<noteq> Some (Wrap x ''could not init k8s clients'')) \<and>
        (\<forall>x. err \<noteq> Some (Wrap x ''could not init k8s informers''))"
      by auto
    with Pipeline(1-10,13,14) client_only [OF Pipeline(4)] informer_only [OF Pipeline(5)]
      step_only [OF Pipeline(11)]
    show ?thesis
      by (auto simp add: pre clientCalls_def watchCalls_def)
  qed
qed

text \<open>What a set guard and a returned initialization error say about the guards.\<close>

lemma guard_consequences:
  assumes R: "Reconcile E r i (c, t) = (res, (c', t'))"
  shows "(fst (env_reconcileCRDs E t c r i) = None \<longrightarrow> initClient c')
       \<and> (initClient c \<longrightarrow> initClient c' \<and> filter isClientInit (added t t') = [])
       \<and> (initInformers c \<longrightarrow> initInformers c' \<and> filter isInformerInit (added t t') = [])
       \<and> ((\<exists>x. res = Returned (Some (Wrap x ''could not init k8s clients''))) \<longrightarrow>
            \<not> initClient c \<and> initClient c')
       \<and> (res = Panic \<or> (\<exists>x. res = Returned (Some (Wrap x ''could not init k8s informers'')))
            \<longrightarrow> \<not> initInformers c \<and> initInformers c')"
proof -
  obtain err0 ic where pre: "env_reconcileCRDs E t c r i = (err0, ic)"
    by (cases "env_reconcileCRDs E t c r i")
  from R pre show ?thesis
  proof (cases rule: Reconcile_cases)
    case (PreFail e)
    then show ?thesis by (simp add: pre)
  next
    case (ClientFail A x)
    from ClientFail(1-9,11) client_only [OF ClientFail(6)] show ?thesis
      by (auto simp add: pre clientCalls_def)
  next
    case (InformerPanic A)
    from InformerPanic client_only [OF InformerPanic(5)] show ?thesis
      by (auto simp add: pre clientCalls_def)
  next
    case (InformerFail A B x)
    from InformerFail client_only [OF InformerFail(5)] informer_only [OF InformerFail(6)]
    show ?thesis
      by (auto simp add: pre clientCalls_def watchCalls_def)
  next
    case (Pipeline A B S err)
    from Pipeline(12) have "(\<forall>x. err \<noteq> Some (Wrap x ''could not init k8s clients'')) \<and>
        (\<forall>x. err \<noteq> Some (Wrap x ''could not init k8s informers''))"
      by auto
    with Pipeline(1-10,13,14) client_only [OF Pipeline(4)] informer_only [OF Pipeline(5)]
      step_only [OF Pipeline(11)]
    show ?thesis
      by (auto simp add: pre clientCalls_def watchCalls_def)
  qed
qed

text \<open>
  The same, read off the answers of the collaborators: when \<^verbatim>\<open>manager.New\<close>, the
  cache or \<^verbatim>\<open>Watch\<close> answers an error in a run whose guard is unset, \<^verbatim>\<open>Reconcile\<close>
  returns that error wrapped and the guard is set.
\<close>

lemma guard_oracle:
  assumes R: "Reconcile E r i (c, t) = (res, (c', t'))"
  shows "(\<not> initClient c \<and> fst (env_reconcileCRDs E t c r i) = None \<and>
          env_manager_New E (t @ [CallReconcileCRDs r i None]) (restConfig c) = Inl y \<longrightarrow>
            res = Returned (Some (Wrap (Wrap y ''could not create manager'')
                    ''could not init k8s clients'')) \<and>
            initClient c' \<and> initInformers c' = initInformers c)
       \<and> (initClient c \<and> \<not> initInformers c \<and> fst (env_reconcileCRDs E t c r i) = None \<and>
          r \<noteq> None \<and> mgr c = Some m \<and>
          env_GetInformerForKind E (t @ [CallReconcileCRDs r i None]) m = Inl y \<longrightarrow>
            res = Returned (Some (Wrap (Wrap y ''could not get informer for namespaces'')
                    ''could not init k8s informers'')) \<and>
            initClient c' \<and> initInformers c')
       \<and> (initClient c \<and> \<not> initInformers c \<and> fst (env_reconcileCRDs E t c r i) = None \<and>
          r \<noteq> None \<and> mgr c = Some m \<and>
          env_GetInformerForKind E (t @ [CallReconcileCRDs r i None]) m = Inr src \<and>
          env_Watch E (t @ [CallReconcileCRDs r i None, CallGetInformerForKind None]) (ctrl c)
            src ToRequests namespacePredicate = Some y \<longrightarrow>
            res = Returned (Some (Wrap (Wrap y ''could not set watcher for namespaces informer'')
                    ''could not init k8s informers'')) \<and>
            initClient c' \<and> initInformers c')"
proof -
  obtain err0 ic where pre: "env_reconcileCRDs E t c r i = (err0, ic)"
    by (cases "env_reconcileCRDs E t c r i")
  show ?thesis
    using R
    by (auto simp add: pre Reconcile_def initK8SClients_def startManager_def
        initK8sInformers_def Let_def)
qed

text \<open>
  Claim C1, amended: each lazy initialization is attempted at most once in the life of
  a Cluster, and the attempt sets its guard whether it succeeds or fails. The client
  initialization is run exactly when its guard is unset and the pre-reconciliation step
  succeeded, and the guard is set after every such run; the watch guard is set exactly
  by the runs that reach the watch initialization, so a watch that was installed sets
  it, and so does one that failed or panicked. When a call of either initialization
  answers an error, \<^verbatim>\<open>Reconcile\<close> returns that error wrapped and the guard is set all
  the same. A guard that is set is never cleared, and a \<^verbatim>\<open>Reconcile\<close> that finds it
  set makes no call of that initialization.
\<close>

theorem once_guards:
  assumes R: "Reconcile E r i (c, t) = (res, (c', t'))"
  shows "(initClient c' = (initClient c \<or> fst (env_reconcileCRDs E t c r i) = None))
       \<and> ((filter isClientInit (added t t') \<noteq> []) =
           (\<not> initClient c \<and> fst (env_reconcileCRDs E t c r i) = None))
       \<and> (\<forall>y. CallManagerNew (Some y) \<in> set (added t t') \<longrightarrow>
            res = Returned (Some (Wrap (Wrap y ''could not create manager'')
                    ''could not init k8s clients'')) \<and>
            initClient c' \<and> initInformers c' = initInformers c)
       \<and> (\<forall>y. CallDynamicNewForConfig (Some y) \<in> set (added t t') \<longrightarrow>
            res = Returned (Some (Wrap (Wrap y ''could not get dynamic client'')
                    ''could not init k8s clients'')) \<and>
            initClient c' \<and> initInformers c' = initInformers c)
       \<and> (initInformers c' =
           (initInformers c \<or>
            fst (env_reconcileCRDs E t c r i) = None \<and>
            (initClient c \<or> CallDynamicNewForConfig None \<in> set (added t t'))))
       \<and> (filter isInformerInit (added t t') \<noteq> [] \<longrightarrow>
            \<not> initInformers c \<and> initInformers c')
       \<and> (\<forall>ct src h p. CallWatch ct src h p None \<in> set (added t t') \<longrightarrow>
            \<not> initInformers c \<and> initInformers c')
       \<and> (\<forall>y. CallGetInformerForKind (Some y) \<in> set (added t t') \<longrightarrow>
            res = Returned (Some (Wrap (Wrap y ''could not get informer for namespaces'')
                    ''could not init k8s informers'')) \<and> initInformers c')
       \<and> (\<forall>ct src h p y. CallWatch ct src h p (Some y) \<in> set (added t t') \<longrightarrow>
            res = Returned (Some (Wrap (Wrap y ''could not set watcher for namespaces informer'')
                    ''could not init k8s informers'')) \<and> initInformers c')
       \<and> (fst (env_reconcileCRDs E t c r i) = None \<longrightarrow> initClient c')
       \<and> (initClient c \<longrightarrow> initClient c' \<and> filter isClientInit (added t t') = [])
       \<and> (initInformers c \<longrightarrow> initInformers c' \<and> filter isInformerInit (added t t') = [])
       \<and> ((\<exists>x. res = Returned (Some (Wrap x ''could not init k8s clients''))) \<longrightarrow>
            \<not> initClient c \<and> initClient c')
       \<and> (res = Panic \<or> (\<exists>x. res = Returned (Some (Wrap x ''could not init k8s informers'')))
            \<longrightarrow> \<not> initInformers c \<and> initInformers c')
       \<and> (\<not> initClient c \<and> fst (env_reconcileCRDs E t c r i) = None \<and>
          env_manager_New E (t @ [CallReconcileCRDs r i None]) (restConfig c) = Inl y \<longrightarrow>
            res = Returned (Some (Wrap (Wrap y ''could not create manager'')
                    ''could not init k8s clients'')) \<and>
            initClient c' \<and> initInformers c' = initInformers c)
       \<and> (initClient c \<and> \<not> initInformers c \<and> fst (env_reconcileCRDs E t c r i) = None \<and>
          r \<noteq> None \<and> mgr c = Some m \<and>
          env_GetInformerForKind E (t @ [CallReconcileCRDs r i None]) m = Inl y \<longrightarrow>
            res = Returned (Some (Wrap (Wrap y ''could not get informer for namespaces'')
                    ''could not init k8s informers'')) \<and>
            initClient c' \<and> initInformers c')
       \<and> (initClient c \<and> \<not> initInformers c \<and> fst (env_reconcileCRDs E t c r i) = None \<and>
          r \<noteq> None \<and> mgr c = Some m \<and>
          env_GetInformerForKind E (t @ [CallReconcileCRDs r i None]) m = Inr src \<and>
          env_Watch E (t @ [CallReconcileCRDs r i None, CallGetInformerForKind None]) (ctrl c)
            src ToRequests namespacePredicate = Some y \<longrightarrow>
            res = Returned (Some (Wrap (Wrap y ''could not set watcher for namespaces informer'')
                    ''could not init k8s informers'')) \<and>
            initClient c' \<and> initInformers c')"
  by (intro conjI
      guard_client_flag [OF R]
      guard_client_attempt [OF R]
      guard_client_failure [OF R, THEN conjunct1]
      guard_client_failure [OF R, THEN conjunct2]
      guard_informers_flag [OF R]
      guard_informers_attempt [OF R, THEN conjunct1]
      guard_informers_attempt [OF R, THEN conjunct2]
      guard_informers_failure [OF R, THEN conjunct1]
      guard_informers_failure [OF R, THEN conjunct2]
      guard_consequences [OF R, THEN conjunct1]
      guard_consequences [OF R, THEN conjunct2, THEN conjunct1]
      guard_consequences [OF R, THEN conjunct2, THEN conjunct2, THEN conjunct1]
      guard_consequences [OF R, THEN conjunct2, THEN conjunct2, THEN conjunct2, THEN conjunct1]
      guard_consequences [OF R, THEN conjunct2, THEN conjunct2, THEN conjunct2, THEN conjunct2]
      guard_oracle [OF R, of y m src, THEN conjunct1]
      guard_oracle [OF R, of y m src, THEN conjunct2, THEN conjunct1]
      guard_oracle [OF R, of y m src, THEN conjunct2, THEN conjunct2])

theorem once_guards_witness:
  "fst (Reconcile managerFailsOnce (Some remote0) (Some istio0) (cluster0, [])) =
       Returned (Some (Wrap (Wrap refused ''could not create manager'')
         ''could not init k8s clients''))
   \<and> \<not> initClient cluster0
   \<and> initClient (fst (snd (Reconcile managerFailsOnce (Some remote0) (Some istio0) (cluster0, []))))
   \<and> \<not> initInformers (fst (snd (Reconcile managerFailsOnce (Some remote0) (Some istio0)
          (cluster0, []))))
   \<and> fst (Reconcile watchFails (Some remote0) (Some istio0) (cluster0, [])) =
       Returned (Some (Wrap (Wrap refused ''could not set watcher for namespaces informer'')
         ''could not init k8s informers''))
   \<and> initInformers (fst (snd (Reconcile watchFails (Some remote0) (Some istio0) (cluster0, []))))
   \<and> fst (Reconcile healthy (Some remote0) (Some istio0) (cluster0, [])) = Returned None
   \<and> initClient (fst (snd (Reconcile healthy (Some remote0) (Some istio0) (cluster0, []))))
   \<and> initInformers (fst (snd (Reconcile healthy (Some remote0) (Some istio0) (cluster0, []))))
   \<and> filter isClientInit (added [] (snd (snd (Reconcile healthy (Some remote0) (Some istio0)
        (cluster1, []))))) = []
   \<and> filter isInformerInit (added [] (snd (snd (Reconcile healthy (Some remote0) (Some istio0)
        (cluster1, []))))) = []"
  using once_guards [OF first_attempt] once_guards [OF run_watchFails]
    once_guards [OF run_healthy] once_guards [OF rerun_healthy]
  unfolding first_attempt run_watchFails run_healthy rerun_healthy
  by (simp add: input_defs watchFails_def clientCalls_def watchCalls_def stepOK_def
      ReconcilerFuncs_def added_def)

end
